theory Spec2Isabelle
  imports Complex_Main
begin

section \<open>Numbers: float tensors' elements\<close>

text \<open>
  The elements of the tensors of \<^verbatim>\<open>kinematic_rigid_body.py\<close> are IEEE floats. They are
  modelled as a real number or \<open>NaN\<close>: rounding, overflow and the sign of zero are left out,
  the propagation of NaN is kept. An operation with a NaN operand gives NaN, \<open>0/0\<close> is NaN
  and a comparison with NaN is false. There is no infinity: in \<open>align\<close> a nonzero number is
  divided by zero only in the argument of \<open>arcsin\<close>, whose value at an infinity is NaN, so
  \<open>x/0\<close> is NaN here for every \<open>x\<close>.
\<close>

datatype fl = Fin real | NaN

instantiation fl :: "{plus,minus,uminus,times,inverse,abs,ord}"
begin

definition plus_fl :: "fl \<Rightarrow> fl \<Rightarrow> fl" where
  "plus_fl a b = (case a of Fin x \<Rightarrow> (case b of Fin y \<Rightarrow> Fin (x + y) | NaN \<Rightarrow> NaN) | NaN \<Rightarrow> NaN)"

definition minus_fl :: "fl \<Rightarrow> fl \<Rightarrow> fl" where
  "minus_fl a b = (case a of Fin x \<Rightarrow> (case b of Fin y \<Rightarrow> Fin (x - y) | NaN \<Rightarrow> NaN) | NaN \<Rightarrow> NaN)"

definition uminus_fl :: "fl \<Rightarrow> fl" where
  "uminus_fl a = (case a of Fin x \<Rightarrow> Fin (- x) | NaN \<Rightarrow> NaN)"

definition times_fl :: "fl \<Rightarrow> fl \<Rightarrow> fl" where
  "times_fl a b = (case a of Fin x \<Rightarrow> (case b of Fin y \<Rightarrow> Fin (x * y) | NaN \<Rightarrow> NaN) | NaN \<Rightarrow> NaN)"

definition divide_fl :: "fl \<Rightarrow> fl \<Rightarrow> fl" where
  "divide_fl a b =
     (case a of
        Fin x \<Rightarrow> (case b of Fin y \<Rightarrow> (if y = 0 then NaN else Fin (x / y)) | NaN \<Rightarrow> NaN)
      | NaN \<Rightarrow> NaN)"

definition inverse_fl :: "fl \<Rightarrow> fl" where
  "inverse_fl a = (case a of Fin y \<Rightarrow> (if y = 0 then NaN else Fin (1 / y)) | NaN \<Rightarrow> NaN)"

definition abs_fl :: "fl \<Rightarrow> fl" where
  "abs_fl a = (case a of Fin x \<Rightarrow> Fin \<bar>x\<bar> | NaN \<Rightarrow> NaN)"

definition less_eq_fl :: "fl \<Rightarrow> fl \<Rightarrow> bool" where
  "less_eq_fl a b = (case a of Fin x \<Rightarrow> (case b of Fin y \<Rightarrow> x \<le> y | NaN \<Rightarrow> False) | NaN \<Rightarrow> False)"

definition less_fl :: "fl \<Rightarrow> fl \<Rightarrow> bool" where
  "less_fl a b = (case a of Fin x \<Rightarrow> (case b of Fin y \<Rightarrow> x < y | NaN \<Rightarrow> False) | NaN \<Rightarrow> False)"

instance ..

end

text \<open>The functions of \<open>torch\<close> that \<open>align\<close> applies to tensor elements.\<close>

definition t_sqrt :: "fl \<Rightarrow> fl" where
  "t_sqrt a = (case a of Fin x \<Rightarrow> (if x < 0 then NaN else Fin (sqrt x)) | NaN \<Rightarrow> NaN)"

definition t_cos :: "fl \<Rightarrow> fl" where
  "t_cos a = (case a of Fin x \<Rightarrow> Fin (cos x) | NaN \<Rightarrow> NaN)"

definition t_sin :: "fl \<Rightarrow> fl" where
  "t_sin a = (case a of Fin x \<Rightarrow> Fin (sin x) | NaN \<Rightarrow> NaN)"

definition t_arcsin :: "fl \<Rightarrow> fl" where
  \<comment> \<open>\<open>torch.arcsin\<close> is NaN outside \<open>[-1, 1]\<close>.\<close>
  "t_arcsin a = (case a of Fin x \<Rightarrow> (if \<bar>x\<bar> \<le> 1 then Fin (arcsin x) else NaN) | NaN \<Rightarrow> NaN)"

definition arctan2 :: "real \<Rightarrow> real \<Rightarrow> real" where
  \<comment> \<open>The angle of the point \<open>(x, y)\<close> in \<open>(-pi, pi]\<close>; \<open>arctan2 0 0 = 0\<close> as for \<open>+0\<close>.\<close>
  "arctan2 y x =
     (if 0 < x then arctan (y / x)
      else if x < 0 then (if 0 \<le> y then arctan (y / x) + pi else arctan (y / x) - pi)
      else if 0 < y then pi / 2
      else if y < 0 then - (pi / 2)
      else 0)"

definition t_arctan2 :: "fl \<Rightarrow> fl \<Rightarrow> fl" where
  "t_arctan2 a b =
     (case a of Fin y \<Rightarrow> (case b of Fin x \<Rightarrow> Fin (arctan2 y x) | NaN \<Rightarrow> NaN) | NaN \<Rightarrow> NaN)"

definition t_pi :: fl where
  "t_pi = Fin pi"

section \<open>Tensors: 4-vectors, 4x4 matrices and batches of them\<close>

text \<open>
  \<open>align\<close> works on homogeneous coordinates: every vector has four elements (east, north,
  up and the homogeneous coordinate) and every matrix is 4x4. A tensor of shape \<open>(B, 4)\<close>
  is a list of \<open>B\<close> vectors and one of shape \<open>(B, 4, 4)\<close> a list of \<open>B\<close> matrices; a tensor
  of shape \<open>(4)\<close> that meets a batch is the batch of one vector.
\<close>

datatype vec4 = Vec4 (ix0: fl) (ix1: fl) (ix2: fl) (ix3: fl)

datatype mat4 = Mat4 (row0: vec4) (row1: vec4) (row2: vec4) (row3: vec4)

definition dot :: "vec4 \<Rightarrow> vec4 \<Rightarrow> fl" where
  "dot a b = ix0 a * ix0 b + ix1 a * ix1 b + ix2 a * ix2 b + ix3 a * ix3 b"

definition col0 :: "mat4 \<Rightarrow> vec4" where
  "col0 m = Vec4 (ix0 (row0 m)) (ix0 (row1 m)) (ix0 (row2 m)) (ix0 (row3 m))"

definition col1 :: "mat4 \<Rightarrow> vec4" where
  "col1 m = Vec4 (ix1 (row0 m)) (ix1 (row1 m)) (ix1 (row2 m)) (ix1 (row3 m))"

definition col2 :: "mat4 \<Rightarrow> vec4" where
  "col2 m = Vec4 (ix2 (row0 m)) (ix2 (row1 m)) (ix2 (row2 m)) (ix2 (row3 m))"

definition col3 :: "mat4 \<Rightarrow> vec4" where
  "col3 m = Vec4 (ix3 (row0 m)) (ix3 (row1 m)) (ix3 (row2 m)) (ix3 (row3 m))"

definition vec_mat :: "vec4 \<Rightarrow> mat4 \<Rightarrow> vec4" where
  \<comment> \<open>One row of a matrix product.\<close>
  "vec_mat r m = Vec4 (dot r (col0 m)) (dot r (col1 m)) (dot r (col2 m)) (dot r (col3 m))"

definition matmul :: "mat4 \<Rightarrow> mat4 \<Rightarrow> mat4" where
  \<comment> \<open>\<open>a @ b\<close> for two matrices.\<close>
  "matmul a b = Mat4 (vec_mat (row0 a) b) (vec_mat (row1 a) b) (vec_mat (row2 a) b) (vec_mat (row3 a) b)"

definition mat_vec :: "mat4 \<Rightarrow> vec4 \<Rightarrow> vec4" where
  \<comment> \<open>\<open>m @ v\<close> for a matrix and a vector.\<close>
  "mat_vec m v = Vec4 (dot (row0 m) v) (dot (row1 m) v) (dot (row2 m) v) (dot (row3 m) v)"

definition eye4 :: mat4 where
  \<comment> \<open>\<open>torch.eye(4)\<close>\<close>
  "eye4 = Mat4 (Vec4 (Fin 1) (Fin 0) (Fin 0) (Fin 0)) (Vec4 (Fin 0) (Fin 1) (Fin 0) (Fin 0))
               (Vec4 (Fin 0) (Fin 0) (Fin 1) (Fin 0)) (Vec4 (Fin 0) (Fin 0) (Fin 0) (Fin 1))"

definition vadd :: "vec4 \<Rightarrow> vec4 \<Rightarrow> vec4" where
  "vadd a b = Vec4 (ix0 a + ix0 b) (ix1 a + ix1 b) (ix2 a + ix2 b) (ix3 a + ix3 b)"

definition vsub :: "vec4 \<Rightarrow> vec4 \<Rightarrow> vec4" where
  "vsub a b = Vec4 (ix0 a - ix0 b) (ix1 a - ix1 b) (ix2 a - ix2 b) (ix3 a - ix3 b)"

definition vabs :: "vec4 \<Rightarrow> vec4" where
  "vabs a = Vec4 \<bar>ix0 a\<bar> \<bar>ix1 a\<bar> \<bar>ix2 a\<bar> \<bar>ix3 a\<bar>"

definition vdiv :: "vec4 \<Rightarrow> fl \<Rightarrow> vec4" where
  "vdiv a c = Vec4 (ix0 a / c) (ix1 a / c) (ix2 a / c) (ix3 a / c)"

definition sumsq :: "vec4 \<Rightarrow> fl" where
  "sumsq a = ix0 a * ix0 a + ix1 a * ix1 a + ix2 a * ix2 a + ix3 a * ix3 a"

primrec sumsq_all :: "vec4 list \<Rightarrow> fl" where
  "sumsq_all [] = Fin 0"
| "sumsq_all (v # vs) = sumsq v + sumsq_all vs"

definition norm_all :: "vec4 list \<Rightarrow> fl" where
  \<comment> \<open>\<open>t.norm()\<close> with no argument: the square root of the sum of the squares of all the
      elements of the tensor, over the batch too.\<close>
  "norm_all t = t_sqrt (sumsq_all t)"

definition div_all :: "vec4 list \<Rightarrow> fl \<Rightarrow> vec4 list" where
  \<comment> \<open>\<open>t /= c\<close> for a number \<open>c\<close>\<close>
  "div_all t c = map (\<lambda>v. vdiv v c) t"

definition bcast2 :: "('a \<Rightarrow> 'b \<Rightarrow> 'c) \<Rightarrow> 'a list \<Rightarrow> 'b list \<Rightarrow> 'c list" where
  \<comment> \<open>An operation on two batches, with the broadcasting of \<open>torch\<close>: a batch of one meets
      every element of the other batch. (Batches of other different sizes raise in
      \<open>torch\<close>; they do not meet in \<open>align\<close>, see \<open>align_round_shapes\<close>.)\<close>
  "bcast2 f xs ys =
     (if length xs = 1 \<and> length ys \<noteq> 1 then map (f (hd xs)) ys
      else if length ys = 1 \<and> length xs \<noteq> 1 then map (\<lambda>x. f x (hd ys)) xs
      else map2 f xs ys)"

definition vec_any_le :: "vec4 \<Rightarrow> fl \<Rightarrow> bool" where
  "vec_any_le v c = (ix0 v \<le> c \<or> ix1 v \<le> c \<or> ix2 v \<le> c \<or> ix3 v \<le> c)"

definition any_le :: "vec4 list \<Rightarrow> fl \<Rightarrow> bool" where
  \<comment> \<open>\<open>torch.any(t <= c)\<close>\<close>
  "any_le t c = list_ex (\<lambda>v. vec_any_le v c) t"

subsection \<open>Finite tensors\<close>

text \<open>A tensor is finite when none of its elements is NaN.\<close>

definition is_fin :: "fl \<Rightarrow> bool" where
  "is_fin a = (case a of Fin x \<Rightarrow> True | NaN \<Rightarrow> False)"

definition vec_finite :: "vec4 \<Rightarrow> bool" where
  "vec_finite v = (is_fin (ix0 v) \<and> is_fin (ix1 v) \<and> is_fin (ix2 v) \<and> is_fin (ix3 v))"

definition all_finite :: "vec4 list \<Rightarrow> bool" where
  "all_finite t = list_all vec_finite t"

definition mat_finite :: "mat4 \<Rightarrow> bool" where
  \<comment> \<open>A matrix without NaN.\<close>
  "mat_finite m = (vec_finite (row0 m) \<and> vec_finite (row1 m) \<and> vec_finite (row2 m) \<and> vec_finite (row3 m))"

subsection \<open>Normalisation\<close>

definition normalize :: "vec4 list \<Rightarrow> vec4 list" where
  \<comment> \<open>A tensor divided by its norm, the norm of all its elements: \<open>t / t.norm()\<close>.\<close>
  "normalize t = div_all t (norm_all t)"

section \<open>The rigid body kinematic\<close>

text \<open>
  The eighteen deviation parameters and the three orientation offsets, each a tensor of
  one element.
\<close>

record KinematicDeviations =
  first_joint_translation_e :: fl
  first_joint_translation_n :: fl
  first_joint_translation_u :: fl
  first_joint_tilt_e :: fl
  first_joint_tilt_n :: fl
  first_joint_tilt_u :: fl
  second_joint_translation_e :: fl
  second_joint_translation_n :: fl
  second_joint_translation_u :: fl
  second_joint_tilt_e :: fl
  second_joint_tilt_n :: fl
  second_joint_tilt_u :: fl
  concentrator_translation_e :: fl
  concentrator_translation_n :: fl
  concentrator_translation_u :: fl
  concentrator_tilt_e :: fl
  concentrator_tilt_n :: fl
  concentrator_tilt_u :: fl

record KinematicOffsets =
  kinematic_initial_orientation_offset_e :: fl
  kinematic_initial_orientation_offset_n :: fl
  kinematic_initial_orientation_offset_u :: fl

text \<open>
  The helpers \<open>rotate_e\<close>, \<open>rotate_n\<close>, \<open>rotate_u\<close> and \<open>translate_enu\<close> of
  \<^verbatim>\<open>artist.util.utils\<close> and the actuators of \<^verbatim>\<open>artist.field.actuator_array\<close> are
  not among the sources. They are parameters of the model: a helper gives the 4x4 matrix
  of an angle (of three lengths), one matrix for each element when its argument is a
  batch; an actuator turns a motor position into a joint angle when it is called
  (\<open>forward\<close>) and an angle back into a position (\<open>angles_to_motor_steps\<close>), element
  by element.
\<close>

record utils =
  rotate_e :: "fl \<Rightarrow> mat4"
  rotate_n :: "fl \<Rightarrow> mat4"
  rotate_u :: "fl \<Rightarrow> mat4"
  translate_enu :: "fl \<Rightarrow> fl \<Rightarrow> fl \<Rightarrow> mat4"

record actuator =
  forward :: "fl \<Rightarrow> fl"
  angles_to_motor_steps :: "fl \<Rightarrow> fl"

record RigidBody =
  position :: vec4
  aim_point :: vec4
  deviation_parameters :: KinematicDeviations
  initial_orientation_offsets :: KinematicOffsets
  actuator_list :: "actuator list"

datatype error = AssertionError | TypeError | RuntimeError

subsection \<open>One round of the loop of \<open>align\<close>\<close>

text \<open>
  The variables that live across the rounds of the loop. \<open>incident_ray_direction\<close> is the
  caller's tensor, which the loop divides in place. \<open>rounds\<close> is not a variable of the
  program: it counts the rounds begun.
\<close>

record align_vars =
  actuator_steps :: "(fl \<times> fl) list"
  orientation :: "mat4 list option"
  last_iteration_loss :: "vec4 list option"
  incident_ray_direction :: "vec4 list"
  rounds :: nat

text \<open>The values a round computes before its convergence test (lines 149 to 228).\<close>

record round_locals =
  joint_1_angles :: "fl list"
  joint_2_angles :: "fl list"
  orientations :: "mat4 list"
  concentrator_normals :: "vec4 list"
  concentrator_origins :: "vec4 list"
  desired_reflect_vec :: "vec4 list"
  ray_normalized :: "vec4 list"
  desired_concentrator_normal :: "vec4 list"
  loss :: "vec4 list"

definition forward_chain :: "utils \<Rightarrow> RigidBody \<Rightarrow> fl list \<Rightarrow> fl list \<Rightarrow> mat4 list" where
  \<comment> \<open>Lines 156 to 211: the orientation of every element of the batch.\<close>
  "forward_chain U self j1 j2 =
     (let d = deviation_parameters self;
          initial_orientations = replicate (length j1) eye4;
          initial_orientations' =
            map (\<lambda>m. matmul m (translate_enu U (ix0 (position self)) (ix1 (position self))
                                    (ix2 (position self))))
              initial_orientations;
          joint_1_rotations =
            map (matmul
                  (matmul
                    (matmul (rotate_n U (first_joint_tilt_n d)) (rotate_u U (first_joint_tilt_u d)))
                    (translate_enu U (first_joint_translation_e d) (first_joint_translation_n d)
                       (first_joint_translation_u d))))
              (map (rotate_e U) j1);
          joint_2_rotations =
            map (matmul
                  (matmul
                    (matmul (rotate_e U (second_joint_tilt_e d)) (rotate_n U (second_joint_tilt_n d)))
                    (translate_enu U (second_joint_translation_e d) (second_joint_translation_n d)
                       (second_joint_translation_u d))))
              (map (rotate_u U) j2)
      in map (\<lambda>m. matmul m (translate_enu U (concentrator_translation_e d)
                               (concentrator_translation_n d) (concentrator_translation_u d)))
           (bcast2 matmul (bcast2 matmul initial_orientations' joint_1_rotations)
              joint_2_rotations))"

definition compute_locals :: "utils \<Rightarrow> RigidBody \<Rightarrow> align_vars \<Rightarrow> round_locals" where
  \<comment> \<open>Lines 149 to 228.\<close>
  "compute_locals U self s =
     (let j1 = map (forward (actuator_list self ! 0)) (map fst (actuator_steps s));
          j2 = map (forward (actuator_list self ! 1)) (map snd (actuator_steps s));
          ori = forward_chain U self j1 j2;
          normals = map (\<lambda>m. mat_vec m (Vec4 (Fin 0) (Fin (- 1)) (Fin 0) (Fin 0))) ori;
          origins = map (\<lambda>m. mat_vec m (Vec4 (Fin 0) (Fin 0) (Fin 0) (Fin 1))) ori;
          reflect = map (\<lambda>ob. vsub (aim_point self) ob) origins;
          reflect' = div_all reflect (norm_all reflect);
          ray = div_all (incident_ray_direction s) (norm_all (incident_ray_direction s));
          desired = bcast2 vadd ray reflect';
          desired' = div_all desired (norm_all desired)
      in \<lparr> joint_1_angles = j1, joint_2_angles = j2, orientations = ori,
           concentrator_normals = normals, concentrator_origins = origins,
           desired_reflect_vec = reflect', ray_normalized = ray,
           desired_concentrator_normal = desired',
           loss = bcast2 (\<lambda>a b. vabs (vsub a b)) desired' normals \<rparr>)"

definition analytical_solution :: "RigidBody \<Rightarrow> vec4 list \<Rightarrow> (fl \<times> fl) list" where
  \<comment> \<open>Lines 237 to 281: the two joint angles from the desired normal, as new actuator
      steps.\<close>
  "analytical_solution self desired =
     (let d = deviation_parameters self;
          j2 = map (\<lambda>m0. - t_arcsin ((- m0) / t_cos (second_joint_translation_n d)))
                 (map ix0 desired);
          a = map (\<lambda>t. (- t_cos (second_joint_translation_e d)) * t_cos t
                      + t_sin (second_joint_translation_e d)
                        * t_sin (second_joint_translation_n d) * t_sin t) j2;
          b = map (\<lambda>t. (- t_sin (second_joint_translation_e d)) * t_cos t
                      - t_cos (second_joint_translation_e d)
                        * t_sin (second_joint_translation_n d) * t_sin t) j2;
          j1 = map (\<lambda>((a, b), m).
                      t_arctan2 (a * (- ix2 m) - b * (- ix1 m)) (a * (- ix1 m) + b * (- ix2 m))
                      - t_pi)
                 (zip (zip a b) desired)
      in zip (map (angles_to_motor_steps (actuator_list self ! 0)) j1)
             (map (angles_to_motor_steps (actuator_list self ! 1)) j2))"

definition converged :: "fl \<Rightarrow> vec4 list option \<Rightarrow> vec4 list \<Rightarrow> bool" where
  \<comment> \<open>Lines 231 to 234: the test that leaves the loop.\<close>
  "converged min_eps last_loss l =
     (case last_loss of
        None \<Rightarrow> False
      | Some prev \<Rightarrow> any_le (bcast2 (\<lambda>a b. vabs (vsub a b)) prev l) min_eps)"

definition align_round :: "utils \<Rightarrow> RigidBody \<Rightarrow> fl \<Rightarrow> align_vars \<Rightarrow> bool \<times> align_vars" where
  \<comment> \<open>The body of the loop; the first component says that the round left the loop by
      \<open>break\<close>.\<close>
  "align_round U self min_eps s =
     (let c = compute_locals U self s;
          s1 = s\<lparr> orientation := Some (orientations c),
                  incident_ray_direction := ray_normalized c,
                  rounds := Suc (rounds s) \<rparr>
      in if converged min_eps (last_iteration_loss s) (loss c) then (True, s1)
         else (False, s1\<lparr> last_iteration_loss := Some (loss c),
                          actuator_steps := analytical_solution self (desired_concentrator_normal c) \<rparr>))"

fun align_loop :: "utils \<Rightarrow> RigidBody \<Rightarrow> fl \<Rightarrow> nat \<Rightarrow> align_vars \<Rightarrow> align_vars" where
  "align_loop U self min_eps 0 s = s"
| "align_loop U self min_eps (Suc n) s =
     (case align_round U self min_eps s of
        (True, s') \<Rightarrow> s'
      | (False, s') \<Rightarrow> align_loop U self min_eps n s')"

definition initial_vars :: "vec4 list \<Rightarrow> align_vars" where
  \<comment> \<open>Lines 145 to 147.\<close>
  "initial_vars ray =
     \<lparr> actuator_steps = [(Fin 0, Fin 0)], orientation = None, last_iteration_loss = None,
       incident_ray_direction = ray, rounds = 0 \<rparr>"

definition apply_offsets :: "utils \<Rightarrow> KinematicOffsets \<Rightarrow> mat4 list \<Rightarrow> mat4 list" where
  \<comment> \<open>Lines 284 to 313.\<close>
  "apply_offsets U off ori =
     map (\<lambda>m. matmul
                 (matmul (matmul m (rotate_e U (kinematic_initial_orientation_offset_e off)))
                    (rotate_n U (kinematic_initial_orientation_offset_n off)))
                 (rotate_u U (kinematic_initial_orientation_offset_u off)))
       ori"

definition align ::
  "utils \<Rightarrow> RigidBody \<Rightarrow> vec4 list \<Rightarrow> int \<Rightarrow> fl \<Rightarrow> (error + mat4 list) \<times> vec4 list" where
  \<comment> \<open>\<open>align(incident_ray_direction, max_num_iterations, min_eps)\<close>: the result or the
      exception, and the caller's \<open>incident_ray_direction\<close> after the call. With no round
      \<open>orientation\<close> is still \<open>None\<close> and \<open>None @ ...\<close> raises a TypeError.\<close>
  "align U self ray max_num_iterations min_eps =
     (if length (actuator_list self) \<noteq> 2 then (Inl AssertionError, ray)
      else
        (let s = align_loop U self min_eps (nat max_num_iterations) (initial_vars ray)
         in case orientation s of
              None \<Rightarrow> (Inl TypeError, incident_ray_direction s)
            | Some ori \<Rightarrow>
                (Inr (apply_offsets U (initial_orientation_offsets self) ori),
                 incident_ray_direction s)))"

definition transform_all :: "mat4 list \<Rightarrow> vec4 list \<Rightarrow> error + vec4 list" where
  \<comment> \<open>\<open>(orientation @ t.unsqueeze(-1)).squeeze(-1)\<close> for the squeezed orientation and a
      tensor of shape \<open>(N, 4)\<close>: batches of different sizes, none of them one, raise.\<close>
  "transform_all ori t =
     (if length ori = length t \<or> length ori = 1 \<or> length t = 1
      then Inr (bcast2 mat_vec ori t) else Inl RuntimeError)"

definition align_surface ::
  "utils \<Rightarrow> RigidBody \<Rightarrow> vec4 list \<Rightarrow> vec4 list \<Rightarrow> vec4 list
     \<Rightarrow> (error + vec4 list \<times> vec4 list) \<times> vec4 list" where
  \<comment> \<open>Lines 343 to 354; \<open>align\<close> runs with its defaults, two rounds and \<open>min_eps = 0.0001\<close>.\<close>
  "align_surface U self ray surface_points surface_normals =
     (case align U self ray 2 (Fin (1 / 10000)) of
        (Inl e, ray') \<Rightarrow> (Inl e, ray')
      | (Inr ori, ray') \<Rightarrow>
          (case transform_all ori surface_points of
             Inl e \<Rightarrow> (Inl e, ray')
           | Inr aligned_surface_points \<Rightarrow>
               (case transform_all ori surface_normals of
                  Inl e \<Rightarrow> (Inl e, ray')
                | Inr aligned_surface_normals \<Rightarrow>
                    (Inr (aligned_surface_points, aligned_surface_normals), ray'))))"

subsection \<open>The shapes of the batches\<close>

text \<open>
  Two batches are compatible when \<open>torch\<close> broadcasts them: they have the same number of
  elements or one of them has one. The variables of the loop keep the shape \<open>shapes_ok\<close>
  (lemma \<open>align_round_shapes\<close>), under which every \<open>bcast2\<close> of a round meets compatible
  batches.
\<close>

definition compatible :: "'a list \<Rightarrow> 'b list \<Rightarrow> bool" where
  "compatible xs ys = (length xs = length ys \<or> length xs = 1 \<or> length ys = 1)"

definition shapes_ok :: "align_vars \<Rightarrow> bool" where
  "shapes_ok s =
     (case last_iteration_loss s of
        None \<Rightarrow> length (actuator_steps s) = 1
                \<or> length (actuator_steps s) = length (incident_ray_direction s)
      | Some l \<Rightarrow> length (actuator_steps s) = length (incident_ray_direction s)
                  \<and> length l = length (incident_ray_direction s))"

subsection \<open>The tensors of a call in a store\<close>

text \<open>
  Line 223 divides \<open>incident_ray_direction\<close> in place: it changes a tensor that the caller
  holds too. To say which tensors a call changes, the tensors a call is given live here in
  a store, a list of tensors by address. The call gets the address of
  \<open>incident_ray_direction\<close> and the addresses of the kinematic's \<open>position\<close> and
  \<open>aim_point\<close>, which every round reads anew (lines 163 to 165 and 221); a tensor of shape
  \<open>(4)\<close> is a batch of one vector. The statements of \<open>align\<close> that change a tensor are
  the three in-place divisions of lines 222, 223 and 225. Lines 222 and 225 divide the
  tensors that lines 221 and 224 have just made, the results of \<open>-\<close> and \<open>+\<close>, which
  are no cells of the caller's store; line 223 writes the cell of the ray. No statement of
  \<open>align\<close> assigns an attribute of \<open>self\<close>, of its deviation parameters or of its
  offsets: these stay values of the record \<open>RigidBody\<close>. The actuators are functions, as
  everywhere in this theory.
\<close>

type_synonym tensor_store = "vec4 list list"

record align_refs =
  incident_ray_direction_ref :: nat
  position_ref :: nat
  aim_point_ref :: nat

definition load_self :: "RigidBody \<Rightarrow> align_refs \<Rightarrow> tensor_store \<Rightarrow> RigidBody" where
  \<comment> \<open>The kinematic with \<open>self.position\<close> and \<open>self.aim_point\<close> as the store has them,
      one vector in each of the two cells.\<close>
  "load_self self refs st =
     self \<lparr> position := hd (st ! position_ref refs), aim_point := hd (st ! aim_point_ref refs) \<rparr>"

definition align_round_store ::
  "utils \<Rightarrow> RigidBody \<Rightarrow> align_refs \<Rightarrow> fl \<Rightarrow> align_vars \<times> tensor_store
     \<Rightarrow> bool \<times> align_vars \<times> tensor_store" where
  \<comment> \<open>The body of the loop on the store: it reads the three tensors and line 223 writes
      the ray.\<close>
  "align_round_store U self refs min_eps p =
     (case p of
        (s, st) \<Rightarrow>
          (case align_round U (load_self self refs st) min_eps
                  (s \<lparr> incident_ray_direction := st ! incident_ray_direction_ref refs \<rparr>) of
             (b, s') \<Rightarrow>
               (b, s', st[incident_ray_direction_ref refs := incident_ray_direction s'])))"

fun align_loop_store ::
  "utils \<Rightarrow> RigidBody \<Rightarrow> align_refs \<Rightarrow> fl \<Rightarrow> nat \<Rightarrow> align_vars \<times> tensor_store
     \<Rightarrow> align_vars \<times> tensor_store" where
  "align_loop_store U self refs min_eps 0 p = p"
| "align_loop_store U self refs min_eps (Suc n) p =
     (case align_round_store U self refs min_eps p of
        (True, p') \<Rightarrow> p'
      | (False, p') \<Rightarrow> align_loop_store U self refs min_eps n p')"

definition align_store ::
  "utils \<Rightarrow> RigidBody \<Rightarrow> align_refs \<Rightarrow> tensor_store \<Rightarrow> int \<Rightarrow> fl
     \<Rightarrow> (error + mat4 list) \<times> tensor_store" where
  \<comment> \<open>\<open>align\<close> on the store: the result or the exception, and the store after the call.\<close>
  "align_store U self refs st max_num_iterations min_eps =
     (if length (actuator_list self) \<noteq> 2 then (Inl AssertionError, st)
      else
        (case align_loop_store U self refs min_eps (nat max_num_iterations)
                (initial_vars (st ! incident_ray_direction_ref refs), st) of
           (s, st') \<Rightarrow>
             (case orientation s of
                None \<Rightarrow> (Inl TypeError, st')
              | Some ori \<Rightarrow> (Inr (apply_offsets U (initial_orientation_offsets self) ori), st'))))"

definition align_surface_store ::
  "utils \<Rightarrow> RigidBody \<Rightarrow> align_refs \<Rightarrow> tensor_store \<Rightarrow> vec4 list \<Rightarrow> vec4 list
     \<Rightarrow> (error + vec4 list \<times> vec4 list) \<times> tensor_store" where
  \<comment> \<open>\<open>align_surface\<close> on the store.\<close>
  "align_surface_store U self refs st surface_points surface_normals =
     (case align_store U self refs st 2 (Fin (1 / 10000)) of
        (Inl e, st') \<Rightarrow> (Inl e, st')
      | (Inr ori, st') \<Rightarrow>
          (case transform_all ori surface_points of
             Inl e \<Rightarrow> (Inl e, st')
           | Inr aligned_surface_points \<Rightarrow>
               (case transform_all ori surface_normals of
                  Inl e \<Rightarrow> (Inl e, st')
                | Inr aligned_surface_normals \<Rightarrow>
                    (Inr (aligned_surface_points, aligned_surface_normals), st'))))"

section \<open>The constructor and the objects it is given\<close>

text \<open>
  \<open>__init__\<close> (lines 42 to 113) works on objects that the caller still holds, so its model
  has a store: a heap is the list of the objects' attribute dictionaries and an object is
  named by its index. A dictionary is the list of its items in insertion order. A tensor
  is its elements and its device; \<open>t.to(device)\<close> is the tensor with the same elements on
  the device. The classes \<open>KinematicOffsets\<close> and \<open>KinematicDeviations\<close> of
  \<^verbatim>\<open>artist.util.configuration_classes\<close> are not among the sources: an object of them
  holds the keyword arguments of its construction as attributes.
\<close>

datatype tensor = Tensor (tensor_data: "fl list") (tensor_device: string)

datatype pyval = TensorV tensor | NoneV | OtherV string

type_synonym pydict = "(string \<times> pyval) list"

type_synonym heap = "pydict list"

definition tensor_to :: "string \<Rightarrow> tensor \<Rightarrow> tensor" where
  \<comment> \<open>\<open>t.to(device)\<close>\<close>
  "tensor_to device t = Tensor (tensor_data t) device"

fun dict_set :: "pydict \<Rightarrow> string \<Rightarrow> pyval \<Rightarrow> pydict" where
  \<comment> \<open>\<open>d[k] = v\<close>: the value of a key that is there is replaced at its place, a new key
      comes last.\<close>
  "dict_set [] k v = [(k, v)]"
| "dict_set ((k', v') # d) k v = (if k' = k then (k, v) # d else (k', v') # dict_set d k v)"

definition setattr :: "heap \<Rightarrow> nat \<Rightarrow> string \<Rightarrow> pyval \<Rightarrow> heap" where
  \<comment> \<open>\<open>setattr(obj, k, v)\<close> for the object at \<open>a\<close>\<close>
  "setattr h a k v = h[a := dict_set (h ! a) k v]"

definition move_attr :: "nat \<Rightarrow> string \<Rightarrow> string \<times> pyval \<Rightarrow> heap \<Rightarrow> heap" where
  \<comment> \<open>The body of the loops of lines 100 to 102 and 105 to 109 for one item.\<close>
  "move_attr a device item h =
     (case snd item of
        TensorV t \<Rightarrow> setattr h a (fst item) (TensorV (tensor_to device t))
      | _ \<Rightarrow> h)"

definition move_tensors :: "heap \<Rightarrow> nat \<Rightarrow> string \<Rightarrow> heap" where
  \<comment> \<open>\<open>for attr_name, attr_value in obj.__dict__.items(): ...\<close>\<close>
  "move_tensors h a device = fold (move_attr a device) (h ! a) h"

definition moved :: "string \<Rightarrow> string \<times> pyval \<Rightarrow> string \<times> pyval" where
  \<comment> \<open>An item with its value moved to the device when the value is a tensor.\<close>
  "moved device item =
     (case snd item of
        TensorV t \<Rightarrow> (fst item, TensorV (tensor_to device t))
      | _ \<Rightarrow> item)"

text \<open>
  The default values of \<open>initial_orientation_offsets\<close> and \<open>deviation_parameters\<close> are
  evaluated once, when the \<open>def\<close> of \<open>__init__\<close> is executed (\<open>define_init\<close>): two
  objects of zero tensors, which the function keeps. A call that omits an argument
  (\<open>None\<close> in the model) gets the kept object.
\<close>

record module_defaults =
  default_initial_orientation_offsets :: nat
  default_deviation_parameters :: nat

record 'a RigidBody_object =
  self_position :: vec4
  self_aim_point :: vec4
  self_deviation_parameters :: nat
  self_initial_orientation_offsets :: nat
  self_actuators :: 'a

definition zero_tensor :: pyval where
  \<comment> \<open>\<open>torch.tensor(0.0)\<close>\<close>
  "zero_tensor = TensorV (Tensor [Fin 0] ''cpu'')"

definition default_offsets_object :: pydict where
  \<comment> \<open>Modelled from the spec: the object \<open>KinematicOffsets(...)\<close> of lines 47 to 51, its three
      offsets as attributes.\<close>
  "default_offsets_object =
     [(''kinematic_initial_orientation_offset_e'', zero_tensor),
      (''kinematic_initial_orientation_offset_n'', zero_tensor),
      (''kinematic_initial_orientation_offset_u'', zero_tensor)]"

definition default_deviations_object :: pydict where
  \<comment> \<open>Modelled from the spec: the object \<open>KinematicDeviations(...)\<close> of lines 52 to 71, its
      eighteen deviation parameters as attributes.\<close>
  "default_deviations_object =
     [(''first_joint_translation_e'', zero_tensor), (''first_joint_translation_n'', zero_tensor),
      (''first_joint_translation_u'', zero_tensor), (''first_joint_tilt_e'', zero_tensor),
      (''first_joint_tilt_n'', zero_tensor), (''first_joint_tilt_u'', zero_tensor),
      (''second_joint_translation_e'', zero_tensor), (''second_joint_translation_n'', zero_tensor),
      (''second_joint_translation_u'', zero_tensor), (''second_joint_tilt_e'', zero_tensor),
      (''second_joint_tilt_n'', zero_tensor), (''second_joint_tilt_u'', zero_tensor),
      (''concentrator_translation_e'', zero_tensor), (''concentrator_translation_n'', zero_tensor),
      (''concentrator_translation_u'', zero_tensor), (''concentrator_tilt_e'', zero_tensor),
      (''concentrator_tilt_n'', zero_tensor), (''concentrator_tilt_u'', zero_tensor)]"

definition define_init :: "heap \<Rightarrow> heap \<times> module_defaults" where
  \<comment> \<open>The \<open>def __init__\<close> of lines 42 to 73: the two default objects are created, the
      offsets first.\<close>
  "define_init h =
     (h @ [default_offsets_object, default_deviations_object],
      \<lparr> default_initial_orientation_offsets = length h,
        default_deviation_parameters = Suc (length h) \<rparr>)"

definition RigidBody_init ::
  \<comment> \<open>Lines 97 to 113. \<open>ActuatorArray\<close>, the class of the actuators, is a parameter; the
      heap after the call and the new kinematic are returned.\<close>
  "module_defaults \<Rightarrow> ('c \<Rightarrow> string \<Rightarrow> 'a) \<Rightarrow> heap \<Rightarrow> vec4 \<Rightarrow> vec4 \<Rightarrow> 'c \<Rightarrow> nat option \<Rightarrow> nat option
     \<Rightarrow> string \<Rightarrow> heap \<times> 'a RigidBody_object" where
  "RigidBody_init M ActuatorArray h pos aim actuator_config
       offsets_arg deviations_arg device =
     (let d = (case deviations_arg of
                 None \<Rightarrow> default_deviation_parameters M | Some a \<Rightarrow> a);
          h1 = move_tensors h d device;
          ob = (case offsets_arg of
                  None \<Rightarrow> default_initial_orientation_offsets M | Some a \<Rightarrow> a);
          h2 = move_tensors h1 ob device
      in (h2, \<lparr> self_position = pos, self_aim_point = aim,
                self_deviation_parameters = d, self_initial_orientation_offsets = ob,
                self_actuators = ActuatorArray actuator_config device \<rparr>))"

definition valid_object :: "heap \<Rightarrow> nat \<Rightarrow> bool" where
  \<comment> \<open>An object of the heap; the keys of a dictionary are distinct.\<close>
  "valid_object h a = (a < length h \<and> distinct (map fst (h ! a)))"

section \<open>The words of the claims\<close>

definition set_concentrator_tilts :: "RigidBody \<Rightarrow> fl \<Rightarrow> fl \<Rightarrow> fl \<Rightarrow> RigidBody" where
  \<comment> \<open>The kinematic with other concentrator tilt deviations and nothing else changed.\<close>
  "set_concentrator_tilts self e n u =
     self\<lparr> deviation_parameters :=
             (deviation_parameters self)\<lparr> concentrator_tilt_e := e, concentrator_tilt_n := n,
                                          concentrator_tilt_u := u \<rparr> \<rparr>"

subsection \<open>The forward chain in the spec's words\<close>

text \<open>
  The orientation of one element of the batch as section 4.1 of the spec composes it: the
  identity, the translation by the position, the stage of the first joint, the stage of
  the second joint and the translation by the concentrator's translation deviations, each
  product taken as the source groups it.
\<close>

definition spec_joint_1_stage :: "utils \<Rightarrow> KinematicDeviations \<Rightarrow> fl \<Rightarrow> mat4" where
  "spec_joint_1_stage U d angle =
     matmul
       (matmul (matmul (rotate_n U (first_joint_tilt_n d)) (rotate_u U (first_joint_tilt_u d)))
          (translate_enu U (first_joint_translation_e d) (first_joint_translation_n d)
             (first_joint_translation_u d)))
       (rotate_e U angle)"

definition spec_joint_2_stage :: "utils \<Rightarrow> KinematicDeviations \<Rightarrow> fl \<Rightarrow> mat4" where
  "spec_joint_2_stage U d angle =
     matmul
       (matmul (matmul (rotate_e U (second_joint_tilt_e d)) (rotate_n U (second_joint_tilt_n d)))
          (translate_enu U (second_joint_translation_e d) (second_joint_translation_n d)
             (second_joint_translation_u d)))
       (rotate_u U angle)"

definition spec_orientation :: "utils \<Rightarrow> RigidBody \<Rightarrow> fl \<Rightarrow> fl \<Rightarrow> mat4" where
  "spec_orientation U self angle1 angle2 =
     matmul
       (matmul
          (matmul
             (matmul eye4
                (translate_enu U (ix0 (position self)) (ix1 (position self)) (ix2 (position self))))
             (spec_joint_1_stage U (deviation_parameters self) angle1))
          (spec_joint_2_stage U (deviation_parameters self) angle2))
       (translate_enu U (concentrator_translation_e (deviation_parameters self))
          (concentrator_translation_n (deviation_parameters self))
          (concentrator_translation_u (deviation_parameters self)))"

subsection \<open>The analytic inverse solve in the spec's words\<close>

text \<open>
  The two joint angles of one desired normal \<open>m\<close> as section 4.3 of the spec gives them;
  \<open>m_E\<close>, \<open>m_N\<close> and \<open>m_U\<close> are the elements 0, 1 and 2 of \<open>m\<close>.
\<close>

definition spec_joint_2_angle :: "KinematicDeviations \<Rightarrow> vec4 \<Rightarrow> fl" where
  "spec_joint_2_angle d m = - t_arcsin (- ix0 m / t_cos (second_joint_translation_n d))"

definition spec_a :: "KinematicDeviations \<Rightarrow> fl \<Rightarrow> fl" where
  "spec_a d j2 =
     - t_cos (second_joint_translation_e d) * t_cos j2
     + t_sin (second_joint_translation_e d) * t_sin (second_joint_translation_n d) * t_sin j2"

definition spec_b :: "KinematicDeviations \<Rightarrow> fl \<Rightarrow> fl" where
  "spec_b d j2 =
     - t_sin (second_joint_translation_e d) * t_cos j2
     - t_cos (second_joint_translation_e d) * t_sin (second_joint_translation_n d) * t_sin j2"

definition spec_joint_1_angle :: "KinematicDeviations \<Rightarrow> vec4 \<Rightarrow> fl" where
  "spec_joint_1_angle d m =
     (let a = spec_a d (spec_joint_2_angle d m); b = spec_b d (spec_joint_2_angle d m)
      in t_arctan2 (a * (- ix2 m) - b * (- ix1 m)) (a * (- ix1 m) + b * (- ix2 m)) - t_pi)"

subsection \<open>The rounds of a run\<close>

text \<open>
  \<open>vars_after k s\<close> are the variables after \<open>k\<close> rounds from \<open>s\<close>, and
  \<open>round_breaks k s\<close> says that the round after them leaves the loop by \<open>break\<close>. Up to
  the first such round these are the variables of the run.
\<close>

definition vars_after :: "utils \<Rightarrow> RigidBody \<Rightarrow> fl \<Rightarrow> nat \<Rightarrow> align_vars \<Rightarrow> align_vars" where
  "vars_after U self min_eps k s = ((\<lambda>t. snd (align_round U self min_eps t)) ^^ k) s"

definition round_breaks :: "utils \<Rightarrow> RigidBody \<Rightarrow> fl \<Rightarrow> nat \<Rightarrow> align_vars \<Rightarrow> bool" where
  "round_breaks U self min_eps k s = fst (align_round U self min_eps (vars_after U self min_eps k s))"

section \<open>A concrete kinematic\<close>

text \<open>
  Modelled from the spec: the four helpers of \<^verbatim>\<open>artist.util.utils\<close>, which are not among
  the sources. The spec names them a rotation about the east, the north and the up axis by
  one angle and a translation by three lengths; here they are the homogeneous matrices of
  the right-handed rotations and of the translation. The theorems below hold for every
  \<open>utils\<close>; these matrices give them concrete inputs.
\<close>

definition std_rotate_e :: "fl \<Rightarrow> mat4" where
  \<comment> \<open>Modelled from the spec: \<open>utils.rotate_e\<close>, the rotation about the east axis.\<close>
  "std_rotate_e a =
     Mat4 (Vec4 (Fin 1) (Fin 0) (Fin 0) (Fin 0)) (Vec4 (Fin 0) (t_cos a) (- t_sin a) (Fin 0))
          (Vec4 (Fin 0) (t_sin a) (t_cos a) (Fin 0)) (Vec4 (Fin 0) (Fin 0) (Fin 0) (Fin 1))"

definition std_rotate_n :: "fl \<Rightarrow> mat4" where
  \<comment> \<open>Modelled from the spec: \<open>utils.rotate_n\<close>, the rotation about the north axis.\<close>
  "std_rotate_n a =
     Mat4 (Vec4 (t_cos a) (Fin 0) (t_sin a) (Fin 0)) (Vec4 (Fin 0) (Fin 1) (Fin 0) (Fin 0))
          (Vec4 (- t_sin a) (Fin 0) (t_cos a) (Fin 0)) (Vec4 (Fin 0) (Fin 0) (Fin 0) (Fin 1))"

definition std_rotate_u :: "fl \<Rightarrow> mat4" where
  \<comment> \<open>Modelled from the spec: \<open>utils.rotate_u\<close>, the rotation about the up axis.\<close>
  "std_rotate_u a =
     Mat4 (Vec4 (t_cos a) (- t_sin a) (Fin 0) (Fin 0)) (Vec4 (t_sin a) (t_cos a) (Fin 0) (Fin 0))
          (Vec4 (Fin 0) (Fin 0) (Fin 1) (Fin 0)) (Vec4 (Fin 0) (Fin 0) (Fin 0) (Fin 1))"

definition std_translate_enu :: "fl \<Rightarrow> fl \<Rightarrow> fl \<Rightarrow> mat4" where
  \<comment> \<open>Modelled from the spec: \<open>utils.translate_enu\<close>, the translation by three lengths.\<close>
  "std_translate_enu e n u =
     Mat4 (Vec4 (Fin 1) (Fin 0) (Fin 0) e) (Vec4 (Fin 0) (Fin 1) (Fin 0) n)
          (Vec4 (Fin 0) (Fin 0) (Fin 1) u) (Vec4 (Fin 0) (Fin 0) (Fin 0) (Fin 1))"

definition std_utils :: utils where
  "std_utils = \<lparr> rotate_e = std_rotate_e, rotate_n = std_rotate_n, rotate_u = std_rotate_u,
                 translate_enu = std_translate_enu \<rparr>"

definition identity_actuator :: actuator where
  \<comment> \<open>Modelled from the spec: an actuator of \<open>artist.field.actuator_array\<close> whose angle is
      its position.\<close>
  "identity_actuator = \<lparr> forward = (\<lambda>x. x), angles_to_motor_steps = (\<lambda>x. x) \<rparr>"

definition zero_deviations :: KinematicDeviations where
  \<comment> \<open>The default of the constructor's \<open>deviation_parameters\<close> (lines 52 to 71).\<close>
  "zero_deviations =
     \<lparr> first_joint_translation_e = Fin 0, first_joint_translation_n = Fin 0,
       first_joint_translation_u = Fin 0, first_joint_tilt_e = Fin 0,
       first_joint_tilt_n = Fin 0, first_joint_tilt_u = Fin 0,
       second_joint_translation_e = Fin 0, second_joint_translation_n = Fin 0,
       second_joint_translation_u = Fin 0, second_joint_tilt_e = Fin 0,
       second_joint_tilt_n = Fin 0, second_joint_tilt_u = Fin 0,
       concentrator_translation_e = Fin 0, concentrator_translation_n = Fin 0,
       concentrator_translation_u = Fin 0, concentrator_tilt_e = Fin 0,
       concentrator_tilt_n = Fin 0, concentrator_tilt_u = Fin 0 \<rparr>"

definition zero_offsets :: KinematicOffsets where
  \<comment> \<open>The default of the constructor's \<open>initial_orientation_offsets\<close> (lines 47 to 51).\<close>
  "zero_offsets =
     \<lparr> kinematic_initial_orientation_offset_e = Fin 0,
       kinematic_initial_orientation_offset_n = Fin 0,
       kinematic_initial_orientation_offset_u = Fin 0 \<rparr>"

definition plain_body :: "vec4 \<Rightarrow> RigidBody" where
  \<comment> \<open>A heliostat at the origin with the given aim point, two identity actuators and no
      deviation.\<close>
  "plain_body aim =
     \<lparr> position = Vec4 (Fin 0) (Fin 0) (Fin 0) (Fin 1), aim_point = aim,
       deviation_parameters = zero_deviations, initial_orientation_offsets = zero_offsets,
       actuator_list = [identity_actuator, identity_actuator] \<rparr>"

definition default_min_eps :: fl where
  \<comment> \<open>The default of \<open>min_eps\<close> (line 119).\<close>
  "default_min_eps = Fin (1 / 10000)"

definition south_aim :: vec4 where
  \<comment> \<open>An aim point 100 to the south of the heliostat.\<close>
  "south_aim = Vec4 (Fin 0) (Fin (- 100)) (Fin 0) (Fin 1)"

definition south_ray :: "vec4 list" where
  \<comment> \<open>One incident ray direction, of length 2, to the south.\<close>
  "south_ray = [Vec4 (Fin 0) (Fin (- 2)) (Fin 0) (Fin 0)]"

text \<open>
  The values of a round, and the variables after it, of the kinematic \<open>plain_body
  south_aim\<close> with the ray \<open>south_ray\<close>: both joint angles are 0, the orientation is the
  identity and the mirror normal \<open>(0, -1, 0, 0)\<close> is the desired one.
\<close>

definition south_locals :: round_locals where
  "south_locals =
     \<lparr> joint_1_angles = [Fin 0], joint_2_angles = [Fin 0], orientations = [eye4],
       concentrator_normals = [Vec4 (Fin 0) (Fin (- 1)) (Fin 0) (Fin 0)],
       concentrator_origins = [Vec4 (Fin 0) (Fin 0) (Fin 0) (Fin 1)],
       desired_reflect_vec = [Vec4 (Fin 0) (Fin (- 1)) (Fin 0) (Fin 0)],
       ray_normalized = [Vec4 (Fin 0) (Fin (- 1)) (Fin 0) (Fin 0)],
       desired_concentrator_normal = [Vec4 (Fin 0) (Fin (- 1)) (Fin 0) (Fin 0)],
       loss = [Vec4 (Fin 0) (Fin 0) (Fin 0) (Fin 0)] \<rparr>"

definition south_vars :: "nat \<Rightarrow> align_vars" where
  "south_vars k =
     \<lparr> actuator_steps = [(Fin 0, Fin 0)], orientation = Some [eye4],
       last_iteration_loss = Some [Vec4 (Fin 0) (Fin 0) (Fin 0) (Fin 0)],
       incident_ray_direction = [Vec4 (Fin 0) (Fin (- 1)) (Fin 0) (Fin 0)], rounds = k \<rparr>"

definition two_rays :: "vec4 list" where
  \<comment> \<open>A batch of two incident ray directions.\<close>
  "two_rays = [Vec4 (Fin 3) (Fin (- 1)) (Fin 1) (Fin 0), Vec4 (Fin 2) (Fin (- 1)) (Fin 0) (Fin 0)]"

text \<open>
  The tensors of a call with \<open>south_ray\<close> in a store: the ray at address 0, the position
  of \<open>plain_body\<close> at 1 and the aim point at 2.
\<close>

definition south_store :: tensor_store where
  "south_store = [south_ray, [Vec4 (Fin 0) (Fin 0) (Fin 0) (Fin 1)], [south_aim]]"

definition south_refs :: align_refs where
  "south_refs = \<lparr> incident_ray_direction_ref = 0, position_ref = 1, aim_point_ref = 2 \<rparr>"

subsection \<open>A steep incident ray\<close>

text \<open>
  The kinematic \<open>plain_body south_aim\<close> with the incident ray \<open>(480, 113, 384, 0)\<close>, of
  length 625. \<open>steep_vars\<close> are the variables after the first round, which solves the joint
  angles \<open>- arctan (3/4)\<close> and \<open>arcsin (3/5)\<close>, and \<open>steep_orientation\<close> is the
  orientation of these angles.
\<close>

definition steep_ray :: "vec4 list" where
  "steep_ray = [Vec4 (Fin 480) (Fin 113) (Fin 384) (Fin 0)]"

definition steep_orientation :: mat4 where
  "steep_orientation =
     Mat4 (Vec4 (Fin (4 / 5)) (Fin (- (3 / 5))) (Fin 0) (Fin 0))
          (Vec4 (Fin (12 / 25)) (Fin (16 / 25)) (Fin (3 / 5)) (Fin 0))
          (Vec4 (Fin (- (9 / 25))) (Fin (- (12 / 25))) (Fin (4 / 5)) (Fin 0))
          (Vec4 (Fin 0) (Fin 0) (Fin 0) (Fin 1))"

definition steep_vars :: align_vars where
  "steep_vars =
     \<lparr> actuator_steps = [(Fin (- arctan (3 / 4)), Fin (arcsin (3 / 5)))], orientation = Some [eye4],
       last_iteration_loss = Some [Vec4 (Fin (3 / 5)) (Fin (9 / 25)) (Fin (12 / 25)) (Fin 0)],
       incident_ray_direction = [Vec4 (Fin (96 / 125)) (Fin (113 / 625)) (Fin (384 / 625)) (Fin 0)],
       rounds = 1 \<rparr>"

subsection \<open>A kinematic with a translated second joint\<close>

text \<open>
  A heliostat at the origin whose second joint is translated by \<open>-1680\<close> along the up
  axis, with the aim point \<open>(0, -1535, -1680)\<close>, and the incident ray \<open>(0, -7, 24, 0)\<close>,
  of length 25. The mirror origin of this kinematic moves with the first joint angle.
  \<open>shifted_translation\<close> is its orientation at the joint angles 0, \<open>shifted_vars\<close> are the
  variables after the first round, which solves the joint angles \<open>- arctan (3/4)\<close> and 0,
  and \<open>shifted_orientation\<close> is the orientation of these angles.
\<close>

definition shifted_body :: RigidBody where
  "shifted_body =
     \<lparr> position = Vec4 (Fin 0) (Fin 0) (Fin 0) (Fin 1),
       aim_point = Vec4 (Fin 0) (Fin (- 1535)) (Fin (- 1680)) (Fin 1),
       deviation_parameters = zero_deviations \<lparr> second_joint_translation_u := Fin (- 1680) \<rparr>,
       initial_orientation_offsets = zero_offsets,
       actuator_list = [identity_actuator, identity_actuator] \<rparr>"

definition slant_ray :: "vec4 list" where
  "slant_ray = [Vec4 (Fin 0) (Fin (- 7)) (Fin 24) (Fin 0)]"

definition shifted_translation :: mat4 where
  "shifted_translation =
     Mat4 (Vec4 (Fin 1) (Fin 0) (Fin 0) (Fin 0)) (Vec4 (Fin 0) (Fin 1) (Fin 0) (Fin 0))
          (Vec4 (Fin 0) (Fin 0) (Fin 1) (Fin (- 1680))) (Vec4 (Fin 0) (Fin 0) (Fin 0) (Fin 1))"

definition shifted_orientation :: mat4 where
  "shifted_orientation =
     Mat4 (Vec4 (Fin 1) (Fin 0) (Fin 0) (Fin 0))
          (Vec4 (Fin 0) (Fin (4 / 5)) (Fin (3 / 5)) (Fin (- 1008)))
          (Vec4 (Fin 0) (Fin (- (3 / 5))) (Fin (4 / 5)) (Fin (- 1344)))
          (Vec4 (Fin 0) (Fin 0) (Fin 0) (Fin 1))"

definition shifted_vars :: align_vars where
  "shifted_vars =
     \<lparr> actuator_steps = [(Fin (- arctan (3 / 4)), Fin 0)], orientation = Some [shifted_translation],
       last_iteration_loss = Some [Vec4 (Fin 0) (Fin (1 / 5)) (Fin (3 / 5)) (Fin 0)],
       incident_ray_direction = [Vec4 (Fin 0) (Fin (- (7 / 25))) (Fin (24 / 25)) (Fin 0)],
       rounds = 1 \<rparr>"

subsection \<open>The scenario of the spec\<close>

text \<open>
  Section 8 of the spec gives a scenario: position \<open>(0, 0, 0)\<close>, aim point
  \<open>(0, 100, 0)\<close>, two identity actuators, no deviation, no offset and the incident ray
  \<open>(0, -1, 0)\<close>. In the homogeneous coordinates of \<open>align\<close> the aim point is a point
  (last element 1) and the ray a direction (last element 0). \<open>north_locals\<close> are the
  values of its first round, \<open>nan_locals\<close> those of its second round and \<open>nan_vars\<close> the
  variables after a round.
\<close>

definition north_aim :: vec4 where
  "north_aim = Vec4 (Fin 0) (Fin 100) (Fin 0) (Fin 1)"

definition unit_south_ray :: "vec4 list" where
  "unit_south_ray = [Vec4 (Fin 0) (Fin (- 1)) (Fin 0) (Fin 0)]"

definition nan_vec :: vec4 where
  "nan_vec = Vec4 NaN NaN NaN NaN"

definition nan_mat :: mat4 where
  "nan_mat = Mat4 nan_vec nan_vec nan_vec nan_vec"

definition north_locals :: round_locals where
  "north_locals =
     \<lparr> joint_1_angles = [Fin 0], joint_2_angles = [Fin 0], orientations = [eye4],
       concentrator_normals = [Vec4 (Fin 0) (Fin (- 1)) (Fin 0) (Fin 0)],
       concentrator_origins = [Vec4 (Fin 0) (Fin 0) (Fin 0) (Fin 1)],
       desired_reflect_vec = [Vec4 (Fin 0) (Fin 1) (Fin 0) (Fin 0)],
       ray_normalized = [Vec4 (Fin 0) (Fin (- 1)) (Fin 0) (Fin 0)],
       desired_concentrator_normal = [nan_vec],
       loss = [nan_vec] \<rparr>"

definition nan_locals :: round_locals where
  "nan_locals =
     \<lparr> joint_1_angles = [NaN], joint_2_angles = [NaN], orientations = [nan_mat],
       concentrator_normals = [nan_vec], concentrator_origins = [nan_vec],
       desired_reflect_vec = [nan_vec],
       ray_normalized = [Vec4 (Fin 0) (Fin (- 1)) (Fin 0) (Fin 0)],
       desired_concentrator_normal = [nan_vec],
       loss = [nan_vec] \<rparr>"

definition nan_vars :: "mat4 \<Rightarrow> nat \<Rightarrow> align_vars" where
  "nan_vars m k =
     \<lparr> actuator_steps = [(NaN, NaN)], orientation = Some [m],
       last_iteration_loss = Some [nan_vec],
       incident_ray_direction = [Vec4 (Fin 0) (Fin (- 1)) (Fin 0) (Fin 0)], rounds = k \<rparr>"

subsection \<open>A heap\<close>

definition caller_deviations_object :: pydict where
  \<comment> \<open>An object with two tensors and an attribute that is no tensor.\<close>
  "caller_deviations_object =
     [(''first_joint_translation_e'', TensorV (Tensor [Fin 1] ''cpu'')),
      (''first_joint_tilt_e'', NoneV),
      (''concentrator_tilt_u'', TensorV (Tensor [Fin 2] ''cuda''))]"

definition example_heap :: heap where
  \<comment> \<open>The caller's object at 0, the default offsets at 1, the default deviations at 2.\<close>
  "example_heap = fst (define_init [caller_deviations_object])"

definition example_defaults :: module_defaults where
  "example_defaults = snd (define_init [caller_deviations_object])"

section \<open>Arithmetic of the numbers\<close>

lemma fl_plus [simp]:
  "Fin x + Fin y = Fin (x + y)" "NaN + a = NaN" "a + NaN = NaN"
  by (simp_all add: plus_fl_def split: fl.split)

lemma fl_minus [simp]:
  "Fin x - Fin y = Fin (x - y)" "NaN - a = NaN" "a - NaN = NaN"
  by (simp_all add: minus_fl_def split: fl.split)

lemma fl_times [simp]:
  "Fin x * Fin y = Fin (x * y)" "NaN * a = NaN" "a * NaN = NaN"
  by (simp_all add: times_fl_def split: fl.split)

lemma fl_divide [simp]:
  "y \<noteq> 0 \<Longrightarrow> Fin x / Fin y = Fin (x / y)" "Fin x / Fin 0 = NaN" "NaN / a = NaN" "a / NaN = NaN"
  by (simp_all add: divide_fl_def split: fl.split)

lemma fl_uminus [simp]: "- Fin x = Fin (- x)" "- NaN = NaN"
  by (simp_all add: uminus_fl_def)

lemma fl_abs [simp]: "\<bar>Fin x\<bar> = Fin \<bar>x\<bar>" "\<bar>NaN\<bar> = NaN"
  by (simp_all add: abs_fl_def)

lemma fl_le [simp]: "(Fin x \<le> Fin y) = (x \<le> y)" "(NaN \<le> a) = False" "(a \<le> NaN) = False"
  by (simp_all add: less_eq_fl_def split: fl.split)

lemma t_sqrt_simps [simp]: "0 \<le> x \<Longrightarrow> t_sqrt (Fin x) = Fin (sqrt x)" "t_sqrt NaN = NaN"
  by (simp_all add: t_sqrt_def)

lemma t_cos_simps [simp]: "t_cos (Fin x) = Fin (cos x)" "t_cos NaN = NaN"
  by (simp_all add: t_cos_def)

lemma t_sin_simps [simp]: "t_sin (Fin x) = Fin (sin x)" "t_sin NaN = NaN"
  by (simp_all add: t_sin_def)

lemma t_arcsin_simps [simp]:
  "\<bar>x\<bar> \<le> 1 \<Longrightarrow> t_arcsin (Fin x) = Fin (arcsin x)" "t_arcsin NaN = NaN"
  by (simp_all add: t_arcsin_def)

lemma t_arctan2_simps [simp]:
  "t_arctan2 (Fin y) (Fin x) = Fin (arctan2 y x)" "t_arctan2 NaN a = NaN" "t_arctan2 a NaN = NaN"
  by (simp_all add: t_arctan2_def split: fl.split)

section \<open>Batches and the concrete kinematic\<close>

lemma bcast2_single [simp]: "bcast2 f [x] [y] = [f x y]"
  by (simp add: bcast2_def)

lemma bcast2_Nil [simp]: "bcast2 f [] ys = []" "bcast2 f xs [] = []"
  by (simp_all add: bcast2_def)

lemma bcast2_left [simp]: "bcast2 f [x] (y # y' # ys) = map (f x) (y # y' # ys)"
  by (simp add: bcast2_def)

lemma bcast2_right [simp]: "bcast2 f (x # x' # xs) [y] = map (\<lambda>x. f x y) (x # x' # xs)"
  by (simp add: bcast2_def)

lemma bcast2_same: "length xs = length ys \<Longrightarrow> bcast2 f xs ys = map2 f xs ys"
  by (cases xs; cases ys) (auto simp add: bcast2_def)

lemma plain_body_simps [simp]:
  "position (plain_body aim) = Vec4 (Fin 0) (Fin 0) (Fin 0) (Fin 1)"
  "aim_point (plain_body aim) = aim"
  "deviation_parameters (plain_body aim) = zero_deviations"
  "initial_orientation_offsets (plain_body aim) = zero_offsets"
  "actuator_list (plain_body aim) = [identity_actuator, identity_actuator]"
  by (simp_all add: plain_body_def)

lemma identity_actuator_simps [simp]:
  "forward identity_actuator = (\<lambda>x. x)" "angles_to_motor_steps identity_actuator = (\<lambda>x. x)"
  by (simp_all add: identity_actuator_def)

section \<open>The precondition of \<open>align\<close>\<close>

text \<open>
  C4. When the kinematic's actuator list does not hold exactly two actuators, \<open>align\<close>
  fails with the assertion error of line 141 before the loop: the model runs no round and
  the caller's \<open>incident_ray_direction\<close> is as it was. With exactly two actuators
  \<open>align\<close> does not raise that error.
\<close>

theorem align_requires_two_actuators:
  "(length (actuator_list self) \<noteq> 2 \<longrightarrow>
      align U self ray max_num_iterations min_eps = (Inl AssertionError, ray))
   \<and> (length (actuator_list self) = 2 \<longrightarrow>
      fst (align U self ray max_num_iterations min_eps) \<noteq> Inl AssertionError)"
  by (simp add: align_def Let_def split: option.split)

theorem align_requires_two_actuators_witness:
  "align std_utils ((plain_body south_aim)\<lparr>actuator_list := [identity_actuator]\<rparr>) south_ray 2
       default_min_eps
     = (Inl AssertionError, south_ray)
   \<and> align std_utils
       ((plain_body south_aim)
          \<lparr>actuator_list := [identity_actuator, identity_actuator, identity_actuator]\<rparr>)
       south_ray 2 default_min_eps
     = (Inl AssertionError, south_ray)
   \<and> fst (align std_utils (plain_body south_aim) south_ray 2 default_min_eps)
     \<noteq> Inl AssertionError"
  using
    align_requires_two_actuators
      [of "(plain_body south_aim)\<lparr>actuator_list := [identity_actuator]\<rparr>" std_utils south_ray 2
          default_min_eps]
    align_requires_two_actuators
      [of "(plain_body south_aim)
             \<lparr>actuator_list := [identity_actuator, identity_actuator, identity_actuator]\<rparr>"
          std_utils south_ray 2 default_min_eps]
    align_requires_two_actuators [of "plain_body south_aim" std_utils south_ray 2 default_min_eps]
  by simp

section \<open>The concentrator tilt deviations\<close>

lemma forward_chain_tilts:
  "forward_chain U (set_concentrator_tilts self e n u) j1 j2 = forward_chain U self j1 j2"
  by (simp add: forward_chain_def set_concentrator_tilts_def Let_def)

lemma set_concentrator_tilts_simps [simp]:
  "actuator_list (set_concentrator_tilts self e n u) = actuator_list self"
  "aim_point (set_concentrator_tilts self e n u) = aim_point self"
  "initial_orientation_offsets (set_concentrator_tilts self e n u) = initial_orientation_offsets self"
  by (simp_all add: set_concentrator_tilts_def)

lemma compute_locals_tilts:
  "compute_locals U (set_concentrator_tilts self e n u) s = compute_locals U self s"
  by (simp add: compute_locals_def forward_chain_tilts)

lemma analytical_solution_tilts:
  "analytical_solution (set_concentrator_tilts self e n u) d = analytical_solution self d"
  by (simp add: analytical_solution_def Let_def) (simp add: set_concentrator_tilts_def)

lemma align_round_tilts:
  "align_round U (set_concentrator_tilts self e n u) eps s = align_round U self eps s"
  by (simp add: align_round_def compute_locals_tilts analytical_solution_tilts Let_def)

lemma align_loop_tilts:
  "align_loop U (set_concentrator_tilts self e n u) eps k s = align_loop U self eps k s"
  by (induction k arbitrary: s) (simp_all add: align_round_tilts split: prod.split bool.split)

lemma align_tilts:
  "align U (set_concentrator_tilts self e n u) ray k eps = align U self ray k eps"
  by (simp add: align_def align_loop_tilts Let_def split: option.split)

text \<open>
  C8. The three concentrator tilt deviations do not influence \<open>align\<close> or
  \<open>align_surface\<close>: two kinematics that differ only in \<open>concentrator_tilt_e\<close>,
  \<open>concentrator_tilt_n\<close> and \<open>concentrator_tilt_u\<close> give, on the same inputs, the same
  result (orientation, aligned points and normals, or exception) and leave the same
  incident ray behind. The forward chain reads only the concentrator translations.
\<close>

theorem concentrator_tilts_do_not_matter:
  "align U (set_concentrator_tilts self e n u) ray max_num_iterations min_eps
     = align U self ray max_num_iterations min_eps
   \<and> align_surface U (set_concentrator_tilts self e n u) ray surface_points surface_normals
     = align_surface U self ray surface_points surface_normals"
  by (simp add: align_surface_def align_tilts)

section \<open>The forward chain\<close>

lemma map2_map_map: "map2 f (map g xs) (map h ys) = map2 (\<lambda>x y. f (g x) (h y)) xs ys"
  by (induction xs arbitrary: ys) (auto simp add: zip_Cons1 split: list.split)

lemma forward_chain_spec:
  assumes "length j1 = length j2"
  shows "forward_chain U self j1 j2 = map2 (spec_orientation U self) j1 j2"
  using assms
proof (induction j1 j2 rule: list_induct2)
  case Nil
  then show ?case by (simp add: forward_chain_def Let_def)
next
  case (Cons x xs y ys)
  have "forward_chain U self (x # xs) (y # ys)
        = spec_orientation U self x y # forward_chain U self xs ys"
    using Cons.hyps
    by (simp add: forward_chain_def Let_def bcast2_same spec_orientation_def
        spec_joint_1_stage_def spec_joint_2_stage_def)
  then show ?case using Cons.IH by simp
qed


lemma map2_fst_snd:
  "map2 h (map f (map fst ps)) (map g (map snd ps)) = map (\<lambda>(p, q). h (f p) (g q)) ps"
  by (induction ps) auto

lemma compute_locals_fields:
  "joint_1_angles (compute_locals U self s) = map (forward (actuator_list self ! 0)) (map fst (actuator_steps s))"
  "joint_2_angles (compute_locals U self s) = map (forward (actuator_list self ! 1)) (map snd (actuator_steps s))"
  "orientations (compute_locals U self s)
     = forward_chain U self (joint_1_angles (compute_locals U self s))
         (joint_2_angles (compute_locals U self s))"
  "concentrator_normals (compute_locals U self s)
     = map (\<lambda>m. mat_vec m (Vec4 (Fin 0) (Fin (- 1)) (Fin 0) (Fin 0)))
         (orientations (compute_locals U self s))"
  "concentrator_origins (compute_locals U self s)
     = map (\<lambda>m. mat_vec m (Vec4 (Fin 0) (Fin 0) (Fin 0) (Fin 1)))
         (orientations (compute_locals U self s))"
  by (simp_all add: compute_locals_def Let_def)

lemma align_round_orientation:
  "orientation (snd (align_round U self min_eps s)) = Some (orientations (compute_locals U self s))"
  by (simp add: align_round_def Let_def)

text \<open>
  C1. In every round the orientation of each element of the batch is, for the two joint
  angles the actuators give for its steps, the product of the identity, the translation by
  the position, the stage of the first joint (rotation by \<open>first_joint_tilt_n\<close>, by
  \<open>first_joint_tilt_u\<close>, translation by the first joint's translation deviations,
  rotation by the first angle about the east axis), the stage of the second joint
  (rotation by \<open>second_joint_tilt_e\<close>, by \<open>second_joint_tilt_n\<close>, translation by the
  second joint's translation deviations, rotation by the second angle about the up axis)
  and the translation by the concentrator's translation deviations, in this order. The
  concentrator normal is this matrix applied to \<open>(0, -1, 0, 0)\<close>, the concentrator origin
  is it applied to \<open>(0, 0, 0, 1)\<close>, and it is the orientation the round stores.
\<close>

theorem forward_chain_order:
  "orientations (compute_locals U self s)
     = map (\<lambda>(p1, p2). spec_orientation U self (forward (actuator_list self ! 0) p1)
                          (forward (actuator_list self ! 1) p2))
         (actuator_steps s)
   \<and> concentrator_normals (compute_locals U self s)
     = map (\<lambda>m. mat_vec m (Vec4 (Fin 0) (Fin (- 1)) (Fin 0) (Fin 0)))
         (orientations (compute_locals U self s))
   \<and> concentrator_origins (compute_locals U self s)
     = map (\<lambda>m. mat_vec m (Vec4 (Fin 0) (Fin 0) (Fin 0) (Fin 1)))
         (orientations (compute_locals U self s))
   \<and> orientation (snd (align_round U self min_eps s))
     = Some (orientations (compute_locals U self s))"
proof -
  have "orientations (compute_locals U self s)
        = map2 (spec_orientation U self)
            (map (forward (actuator_list self ! 0)) (map fst (actuator_steps s)))
            (map (forward (actuator_list self ! 1)) (map snd (actuator_steps s)))"
    by (simp add: compute_locals_fields forward_chain_spec)
  also have "\<dots> = map (\<lambda>(p1, p2). spec_orientation U self (forward (actuator_list self ! 0) p1)
                          (forward (actuator_list self ! 1) p2))
         (actuator_steps s)"
    by (rule map2_fst_snd)
  finally show ?thesis
    by (simp add: compute_locals_fields(4,5) align_round_orientation)
qed

section \<open>The analytic inverse solve\<close>

lemma analytical_solution_spec:
  "analytical_solution self desired
     = map (\<lambda>m. (angles_to_motor_steps (actuator_list self ! 0)
                    (spec_joint_1_angle (deviation_parameters self) m),
                  angles_to_motor_steps (actuator_list self ! 1)
                    (spec_joint_2_angle (deviation_parameters self) m)))
         desired"
proof (induction desired)
  case Nil
  then show ?case by (simp add: analytical_solution_def Let_def)
next
  case (Cons m ms)
  have "analytical_solution self (m # ms)
        = (angles_to_motor_steps (actuator_list self ! 0)
             (spec_joint_1_angle (deviation_parameters self) m),
           angles_to_motor_steps (actuator_list self ! 1)
             (spec_joint_2_angle (deviation_parameters self) m))
          # analytical_solution self ms"
    by (simp add: analytical_solution_def Let_def spec_joint_1_angle_def spec_joint_2_angle_def
        spec_a_def spec_b_def)
  then show ?case using Cons.IH by simp
qed

lemma align_round_steps:
  "actuator_steps (snd (align_round U self min_eps s))
     = (if fst (align_round U self min_eps s) then actuator_steps s
        else analytical_solution self (desired_concentrator_normal (compute_locals U self s)))"
  by (simp add: align_round_def Let_def)

lemma initial_round_solves:
  "align_round U self min_eps (initial_vars ray)
     = (False, (initial_vars ray)
          \<lparr> orientation := Some (orientations (compute_locals U self (initial_vars ray))),
            incident_ray_direction := ray_normalized (compute_locals U self (initial_vars ray)),
            rounds := 1,
            last_iteration_loss := Some (loss (compute_locals U self (initial_vars ray))),
            actuator_steps := analytical_solution self
              (desired_concentrator_normal (compute_locals U self (initial_vars ray))) \<rparr>)"
  by (simp add: align_round_def Let_def converged_def initial_vars_def)

text \<open>
  C2, for the rounds that reach the solve. The analytic solve of lines 237 to 281 gives,
  for every desired normal \<open>m\<close> of the batch, the second joint angle
  \<open>- arcsin (- m_E / cos second_joint_translation_n)\<close> and the first joint angle
  \<open>atan2 (a * (- m_U) - b * (- m_N)) (a * (- m_N) + b * (- m_U)) - pi\<close> with
  \<open>a = - cos te * cos j2 + sin te * sin tn * sin j2\<close> and
  \<open>b = - sin te * cos j2 - cos te * sin tn * sin j2\<close>, where \<open>te\<close> and \<open>tn\<close> are
  \<open>second_joint_translation_e\<close> and \<open>second_joint_translation_n\<close>: the divisor is the
  cosine of a translation deviation. A round leaves the loop by \<open>break\<close> exactly when its
  convergence test holds; it has then not reached the solve and keeps the actuator steps.
  Every other round stores the actuators' steps for the angles that the solve gives for
  its desired normal, and the first round of every call is such a round.
\<close>

theorem analytical_solution_formulas:
  "analytical_solution self desired
     = map (\<lambda>m. (angles_to_motor_steps (actuator_list self ! 0)
                    (spec_joint_1_angle (deviation_parameters self) m),
                  angles_to_motor_steps (actuator_list self ! 1)
                    (spec_joint_2_angle (deviation_parameters self) m)))
         desired
   \<and> fst (align_round U self min_eps s)
     = converged min_eps (last_iteration_loss s) (loss (compute_locals U self s))
   \<and> actuator_steps (snd (align_round U self min_eps s))
     = (if converged min_eps (last_iteration_loss s) (loss (compute_locals U self s))
        then actuator_steps s
        else analytical_solution self (desired_concentrator_normal (compute_locals U self s)))
   \<and> \<not> fst (align_round U self min_eps (initial_vars ray))
   \<and> actuator_steps (snd (align_round U self min_eps (initial_vars ray)))
     = analytical_solution self
         (desired_concentrator_normal (compute_locals U self (initial_vars ray)))"
proof -
  have "fst (align_round U self min_eps s)
     = converged min_eps (last_iteration_loss s) (loss (compute_locals U self s))"
    by (simp add: align_round_def Let_def)
  moreover have "actuator_steps (snd (align_round U self min_eps s))
     = (if converged min_eps (last_iteration_loss s) (loss (compute_locals U self s))
        then actuator_steps s
        else analytical_solution self (desired_concentrator_normal (compute_locals U self s)))"
    by (simp add: align_round_def Let_def)
  moreover have "\<not> fst (align_round U self min_eps (initial_vars ray))"
    by (simp only: initial_round_solves fst_conv simp_thms)
  moreover have "actuator_steps (snd (align_round U self min_eps (initial_vars ray)))
     = analytical_solution self
         (desired_concentrator_normal (compute_locals U self (initial_vars ray)))"
    by (simp only: initial_round_solves snd_conv) simp
  ultimately show ?thesis
    using analytical_solution_spec [of self desired] by blast
qed

section \<open>The shapes of the batches\<close>

lemma length_bcast2:
  "length (bcast2 f xs ys)
     = (if length xs = 1 \<and> length ys \<noteq> 1 then length ys
        else if length ys = 1 \<and> length xs \<noteq> 1 then length xs
        else min (length xs) (length ys))"
  by (simp add: bcast2_def)

lemma length_div_all [simp]: "length (div_all t c) = length t"
  by (simp add: div_all_def)

lemma length_forward_chain:
  "length j1 = length j2 \<Longrightarrow> length (forward_chain U self j1 j2) = length j1"
  by (simp add: forward_chain_spec)

lemma compute_locals_lengths:
  "length (concentrator_normals (compute_locals U self s)) = length (actuator_steps s)"
  "length (desired_reflect_vec (compute_locals U self s)) = length (actuator_steps s)"
  "length (ray_normalized (compute_locals U self s)) = length (incident_ray_direction s)"
  "length (desired_concentrator_normal (compute_locals U self s))
     = length (bcast2 vadd (ray_normalized (compute_locals U self s))
                 (desired_reflect_vec (compute_locals U self s)))"
  "length (loss (compute_locals U self s))
     = length (bcast2 vadd (desired_concentrator_normal (compute_locals U self s))
                 (concentrator_normals (compute_locals U self s)))"
  by (simp_all add: compute_locals_def Let_def length_forward_chain length_bcast2)

lemma length_analytical_solution [simp]: "length (analytical_solution self d) = length d"
  by (simp add: analytical_solution_spec)

lemma shapes_ok_initial: "shapes_ok (initial_vars ray)"
  by (simp add: shapes_ok_def initial_vars_def)

lemma align_round_shapes:
  assumes "shapes_ok s"
  shows "compatible (ray_normalized (compute_locals U self s))
           (desired_reflect_vec (compute_locals U self s))"
    and "compatible (desired_concentrator_normal (compute_locals U self s))
           (concentrator_normals (compute_locals U self s))"
    and "case last_iteration_loss s of
           None \<Rightarrow> True | Some l \<Rightarrow> compatible l (loss (compute_locals U self s))"
    and "shapes_ok (snd (align_round U self min_eps s))"
proof -
  let ?c = "compute_locals U self s"
  let ?n = "length (actuator_steps s)" and ?b = "length (incident_ray_direction s)"
  have n: "?n = 1 \<or> ?n = ?b"
    using assms by (auto simp add: shapes_ok_def split: option.splits)
  have d: "length (desired_concentrator_normal ?c) = ?b"
    using n by (auto simp add: compute_locals_lengths length_bcast2)
  have l: "length (loss ?c) = ?b"
    using n d by (auto simp add: compute_locals_lengths length_bcast2)
  show "compatible (ray_normalized ?c) (desired_reflect_vec ?c)"
    using n by (auto simp add: compatible_def compute_locals_lengths)
  show "compatible (desired_concentrator_normal ?c) (concentrator_normals ?c)"
    using n d by (auto simp add: compatible_def compute_locals_lengths)
  show "case last_iteration_loss s of
          None \<Rightarrow> True | Some l \<Rightarrow> compatible l (loss ?c)"
    using assms l by (auto simp add: compatible_def shapes_ok_def split: option.splits)
  show "shapes_ok (snd (align_round U self min_eps s))"
    using assms d l
    by (auto simp add: align_round_def Let_def shapes_ok_def compute_locals_lengths(3)
        split: option.splits)
qed

lemma align_loop_shapes:
  "shapes_ok s \<Longrightarrow> shapes_ok (align_loop U self min_eps n s)"
proof (induction n arbitrary: s)
  case 0
  then show ?case by simp
next
  case (Suc n)
  obtain b s' where r: "align_round U self min_eps s = (b, s')"
    by (cases "align_round U self min_eps s")
  then have "shapes_ok s'"
    using align_round_shapes(4) [OF Suc.prems, of U self min_eps] by simp
  then show ?case using r Suc.IH [of s'] by (cases b) simp_all
qed

section \<open>The convergence test and the number of rounds\<close>

lemma align_round_rounds: "rounds (snd (align_round U self min_eps s)) = Suc (rounds s)"
  by (simp add: align_round_def Let_def)

lemma vars_after_Suc:
  "vars_after U self min_eps (Suc k) s
     = vars_after U self min_eps k (snd (align_round U self min_eps s))"
  unfolding vars_after_def by (simp only: funpow_Suc_right o_apply)

lemma round_breaks_Suc:
  "round_breaks U self min_eps (Suc k) s
     = round_breaks U self min_eps k (snd (align_round U self min_eps s))"
  by (simp add: round_breaks_def vars_after_Suc)

lemma round_breaks_0: "round_breaks U self min_eps 0 s = fst (align_round U self min_eps s)"
  by (simp add: round_breaks_def vars_after_def)

lemma align_loop_rounds:
  "rounds (align_loop U self min_eps n s)
     = rounds s + (if \<exists>k<n. round_breaks U self min_eps k s
                   then Suc (LEAST k. round_breaks U self min_eps k s) else n)"
proof (induction n arbitrary: s)
  case 0
  then show ?case by simp
next
  case (Suc n)
  obtain b s' where r: "align_round U self min_eps s = (b, s')"
    by (cases "align_round U self min_eps s")
  have rs': "rounds s' = Suc (rounds s)"
    using align_round_rounds [of U self min_eps s] r by simp
  show ?case
  proof (cases b)
    case True
    then have b0: "round_breaks U self min_eps 0 s" using r by (simp add: round_breaks_0)
    then have "(LEAST k. round_breaks U self min_eps k s) = 0" by (simp add: Least_eq_0)
    moreover have "\<exists>k<Suc n. round_breaks U self min_eps k s" using b0 by blast
    ultimately show ?thesis using r True rs' by simp
  next
    case False
    then have nb0: "\<not> round_breaks U self min_eps 0 s" using r by (simp add: round_breaks_0)
    have shift: "round_breaks U self min_eps (Suc k) s = round_breaks U self min_eps k s'" for k
      using r by (simp add: round_breaks_Suc)
    have ex: "(\<exists>k<Suc n. round_breaks U self min_eps k s) = (\<exists>k<n. round_breaks U self min_eps k s')"
    proof
      assume "\<exists>k<Suc n. round_breaks U self min_eps k s"
      then obtain k where k: "k < Suc n" "round_breaks U self min_eps k s" by blast
      then obtain j where "k = Suc j" using nb0 by (cases k) auto
      then show "\<exists>k<n. round_breaks U self min_eps k s'" using k shift by auto
    next
      assume "\<exists>k<n. round_breaks U self min_eps k s'"
      then obtain k where "k < n" "round_breaks U self min_eps k s'" by blast
      then have "Suc k < Suc n" "round_breaks U self min_eps (Suc k) s" using shift by auto
      then show "\<exists>k<Suc n. round_breaks U self min_eps k s" by blast
    qed
    have least: "(LEAST k. round_breaks U self min_eps k s)
                 = Suc (LEAST k. round_breaks U self min_eps k s')"
      if "\<exists>k<n. round_breaks U self min_eps k s'"
    proof -
      from that obtain j where "round_breaks U self min_eps j s'" by blast
      then have "round_breaks U self min_eps (Suc j) s" by (simp add: shift)
      then have "(LEAST k. round_breaks U self min_eps k s)
                 = Suc (LEAST k. round_breaks U self min_eps (Suc k) s)"
        using nb0 by (rule Least_Suc)
      then show ?thesis by (simp add: shift)
    qed
    have "rounds (align_loop U self min_eps (Suc n) s) = rounds (align_loop U self min_eps n s')"
      using r False by simp
    also have "\<dots> = rounds s' + (if \<exists>k<n. round_breaks U self min_eps k s'
                   then Suc (LEAST k. round_breaks U self min_eps k s') else n)"
      by (rule Suc.IH)
    finally show ?thesis using rs' ex least by auto
  qed
qed


lemma initial_no_check: "\<not> fst (align_round U self min_eps (initial_vars ray))"
  by (simp add: align_round_def Let_def converged_def initial_vars_def)

lemma align_round_breaks:
  "fst (align_round U self min_eps s)
     = (case last_iteration_loss s of
          None \<Rightarrow> False
        | Some prev \<Rightarrow>
            list_ex (\<lambda>v. ix0 v \<le> min_eps \<or> ix1 v \<le> min_eps \<or> ix2 v \<le> min_eps \<or> ix3 v \<le> min_eps)
              (bcast2 (\<lambda>a b. vabs (vsub a b)) prev (loss (compute_locals U self s))))"
  by (simp add: align_round_def Let_def converged_def any_le_def vec_any_le_def split: option.split)

lemma align_round_last_loss:
  "last_iteration_loss (snd (align_round U self min_eps s))
     = (if fst (align_round U self min_eps s) then last_iteration_loss s
        else Some (loss (compute_locals U self s)))"
  by (simp add: align_round_def Let_def)

text \<open>
  The convergence test as the code makes it. The first round of \<open>align\<close> makes no test:
  there is no previous loss. A later round leaves the loop exactly when the absolute
  change of the loss against the loss of the round before is at most \<open>min_eps\<close> in at
  least one of the four elements of at least one vector of the batch; a round that stays
  stores its loss for the next one. So the loop runs up to its first such round, and
  \<open>max_num_iterations\<close> rounds when there is none (no round for a negative
  \<open>max_num_iterations\<close>).
\<close>

lemma convergence_test_as_coded:
  "\<not> fst (align_round U self min_eps (initial_vars ray))
   \<and> fst (align_round U self min_eps s)
       = (case last_iteration_loss s of
            None \<Rightarrow> False
          | Some prev \<Rightarrow>
              list_ex (\<lambda>v. ix0 v \<le> min_eps \<or> ix1 v \<le> min_eps \<or> ix2 v \<le> min_eps \<or> ix3 v \<le> min_eps)
                (bcast2 (\<lambda>a b. vabs (vsub a b)) prev (loss (compute_locals U self s))))
   \<and> last_iteration_loss (snd (align_round U self min_eps s))
       = (if fst (align_round U self min_eps s) then last_iteration_loss s
          else Some (loss (compute_locals U self s)))
   \<and> rounds (align_loop U self min_eps (nat max_num_iterations) (initial_vars ray))
       = (if \<exists>k<nat max_num_iterations. round_breaks U self min_eps k (initial_vars ray)
          then Suc (LEAST k. round_breaks U self min_eps k (initial_vars ray))
          else nat max_num_iterations)"
proof -
  have "rounds (initial_vars ray) = 0" by (simp add: initial_vars_def)
  then have "rounds (align_loop U self min_eps (nat max_num_iterations) (initial_vars ray))
       = (if \<exists>k<nat max_num_iterations. round_breaks U self min_eps k (initial_vars ray)
          then Suc (LEAST k. round_breaks U self min_eps k (initial_vars ray))
          else nat max_num_iterations)"
    by (simp only: align_loop_rounds [of U self min_eps "nat max_num_iterations" "initial_vars ray"] add_0)
  then show ?thesis
    using initial_no_check [of U self min_eps ray] align_round_breaks [of U self min_eps s]
      align_round_last_loss [of U self min_eps s]
    by blast
qed

section \<open>Finite tensors and their normalisation\<close>

lemma is_fin_simps [simp]: "is_fin (Fin x)" "\<not> is_fin NaN"
  by (simp_all add: is_fin_def)

lemma is_fin_ex: "is_fin a \<Longrightarrow> \<exists>x. a = Fin x"
  by (cases a) simp_all

lemma vec_finite_ex:
  assumes "vec_finite v"
  shows "\<exists>a b c d. v = Vec4 (Fin a) (Fin b) (Fin c) (Fin d)"
proof -
  obtain p q r t where v: "v = Vec4 p q r t" by (cases v)
  with assms obtain a b c d where "p = Fin a" "q = Fin b" "r = Fin c" "t = Fin d"
    unfolding vec_finite_def by (auto dest!: is_fin_ex)
  with v show ?thesis by blast
qed

lemma sumsq_finite:
  assumes "vec_finite v"
  shows "\<exists>q. 0 \<le> q \<and> sumsq v = Fin q"
proof -
  from vec_finite_ex [OF assms] obtain a b c d where "v = Vec4 (Fin a) (Fin b) (Fin c) (Fin d)"
    by blast
  then have "sumsq v = Fin (a * a + b * b + c * c + d * d)" by (simp add: sumsq_def)
  moreover have "0 \<le> a * a + b * b + c * c + d * d" by simp
  ultimately show ?thesis by blast
qed

lemma sumsq_all_finite:
  "all_finite t \<Longrightarrow> \<exists>q. 0 \<le> q \<and> sumsq_all t = Fin q"
proof (induction t)
  case Nil
  then show ?case by simp
next
  case (Cons v t)
  then have "vec_finite v" "all_finite t" by (simp_all add: all_finite_def)
  with Cons.IH sumsq_finite [of v] obtain q r where
    "0 \<le> q" "sumsq_all t = Fin q" "0 \<le> r" "sumsq v = Fin r" by blast
  then have "sumsq_all (v # t) = Fin (r + q)" "0 \<le> r + q" by simp_all
  then show ?case by blast
qed

lemma sumsq_vdiv:
  assumes "vec_finite v" "n \<noteq> 0" "sumsq v = Fin r"
  shows "sumsq (vdiv v (Fin n)) = Fin (r / (n * n)) \<and> vec_finite (vdiv v (Fin n))"
proof -
  from vec_finite_ex [OF assms(1)] obtain a b c d where v: "v = Vec4 (Fin a) (Fin b) (Fin c) (Fin d)"
    by blast
  with assms(3) have r: "r = a * a + b * b + c * c + d * d" by (simp add: sumsq_def)
  have "sumsq (vdiv v (Fin n)) = Fin (a / n * (a / n) + b / n * (b / n) + c / n * (c / n) + d / n * (d / n))"
    using v assms(2) by (simp add: sumsq_def vdiv_def)
  moreover have "a / n * (a / n) + b / n * (b / n) + c / n * (c / n) + d / n * (d / n) = r / (n * n)"
    using assms(2) by (simp add: r add_divide_distrib)
  moreover have "vec_finite (vdiv v (Fin n))"
    using v assms(2) by (simp add: vec_finite_def vdiv_def)
  ultimately show ?thesis by simp
qed

lemma sumsq_all_div:
  assumes "n \<noteq> 0"
  shows "all_finite t \<Longrightarrow> sumsq_all t = Fin q
         \<Longrightarrow> sumsq_all (div_all t (Fin n)) = Fin (q / (n * n)) \<and> all_finite (div_all t (Fin n))"
proof (induction t arbitrary: q)
  case Nil
  then show ?case by (simp add: div_all_def all_finite_def)
next
  case (Cons v t)
  then have fv: "vec_finite v" and ft: "all_finite t" by (simp_all add: all_finite_def)
  from sumsq_finite [OF fv] obtain r where r: "sumsq v = Fin r" by blast
  from sumsq_all_finite [OF ft] obtain p where p: "sumsq_all t = Fin p" by blast
  from Cons.prems(2) r p have q: "q = r + p" by simp
  from Cons.IH [OF ft p] have ih: "sumsq_all (div_all t (Fin n)) = Fin (p / (n * n))"
    "all_finite (div_all t (Fin n))" by simp_all
  from sumsq_vdiv [OF fv assms r] have hv: "sumsq (vdiv v (Fin n)) = Fin (r / (n * n))"
    "vec_finite (vdiv v (Fin n))" by simp_all
  have "sumsq_all (div_all (v # t) (Fin n)) = Fin (r / (n * n) + p / (n * n))"
    using ih(1) hv(1) by (simp add: div_all_def)
  moreover have "all_finite (div_all (v # t) (Fin n))"
    using ih(2) hv(2) by (simp add: div_all_def all_finite_def)
  ultimately show ?case by (simp add: q add_divide_distrib)
qed

lemma norm_all_finite:
  assumes "all_finite t"
  shows "\<exists>n. 0 \<le> n \<and> norm_all t = Fin n \<and> sumsq_all t = Fin (n * n)"
proof -
  from sumsq_all_finite [OF assms] obtain q where q: "0 \<le> q" "sumsq_all t = Fin q" by blast
  then have "norm_all t = Fin (sqrt q)" "0 \<le> sqrt q" "sqrt q * sqrt q = q"
    by (simp_all add: norm_all_def)
  with q show ?thesis by metis
qed

lemma normalize_unit:
  assumes "all_finite t" "norm_all t \<noteq> Fin 0"
  shows "norm_all (div_all t (norm_all t)) = Fin 1 \<and> all_finite (div_all t (norm_all t))"
proof -
  from norm_all_finite [OF assms(1)] obtain n where
    n: "0 \<le> n" "norm_all t = Fin n" "sumsq_all t = Fin (n * n)" by blast
  with assms(2) have n0: "n \<noteq> 0" by auto
  from sumsq_all_div [OF n0 assms(1) n(3)]
  have "sumsq_all (div_all t (Fin n)) = Fin (n * n / (n * n))" "all_finite (div_all t (Fin n))"
    by simp_all
  then show ?thesis using n0 n(2) by (simp add: norm_all_def)
qed

lemma div_all_one: "all_finite t \<Longrightarrow> div_all t (Fin 1) = t"
proof (induction t)
  case Nil
  then show ?case by (simp add: div_all_def)
next
  case (Cons v t)
  then have fv: "vec_finite v" and ft: "all_finite t" by (simp_all add: all_finite_def)
  from vec_finite_ex [OF fv] obtain a b c d where "v = Vec4 (Fin a) (Fin b) (Fin c) (Fin d)" by blast
  then have "vdiv v (Fin 1) = v" by (simp add: vdiv_def)
  then show ?case using Cons.IH [OF ft] by (simp add: div_all_def)
qed

lemma normalize_idem:
  assumes "all_finite t" "norm_all t \<noteq> Fin 0"
  shows "div_all (div_all t (norm_all t)) (norm_all (div_all t (norm_all t))) = div_all t (norm_all t)"
  using normalize_unit [OF assms] by (simp add: div_all_one)

section \<open>The incident ray direction after the call\<close>

lemma align_round_ray:
  "incident_ray_direction (snd (align_round U self min_eps s))
     = div_all (incident_ray_direction s) (norm_all (incident_ray_direction s))"
  by (simp add: align_round_def compute_locals_def Let_def)

lemma align_loop_ray:
  assumes "all_finite ray" "norm_all ray \<noteq> Fin 0"
  shows "incident_ray_direction s = ray \<or> incident_ray_direction s = div_all ray (norm_all ray)
     \<Longrightarrow> incident_ray_direction (align_loop U self min_eps n s)
           = (if n = 0 then incident_ray_direction s else div_all ray (norm_all ray))"
proof (induction n arbitrary: s)
  case 0
  then show ?case by simp
next
  case (Suc n)
  obtain b s' where r: "align_round U self min_eps s = (b, s')"
    by (cases "align_round U self min_eps s")
  have "incident_ray_direction s' = div_all (incident_ray_direction s) (norm_all (incident_ray_direction s))"
    using align_round_ray [of U self min_eps s] r by simp
  then have s': "incident_ray_direction s' = div_all ray (norm_all ray)"
    using Suc.prems normalize_idem [OF assms] by auto
  show ?case
  proof (cases b)
    case True
    then show ?thesis using r s' by simp
  next
    case False
    then have "incident_ray_direction (align_loop U self min_eps (Suc n) s)
               = incident_ray_direction (align_loop U self min_eps n s')"
      using r by simp
    also have "\<dots> = (if n = 0 then incident_ray_direction s' else div_all ray (norm_all ray))"
      using Suc.IH [of s'] s' by simp
    finally show ?thesis using s' by simp
  qed
qed

lemma align_snd:
  "snd (align U self ray max_num_iterations min_eps)
     = (if length (actuator_list self) \<noteq> 2 then ray
        else incident_ray_direction
               (align_loop U self min_eps (nat max_num_iterations) (initial_vars ray)))"
  by (simp add: align_def Let_def split: option.split)

lemma align_surface_snd:
  "snd (align_surface U self ray surface_points surface_normals)
     = snd (align U self ray 2 (Fin (1 / 10000)))"
  by (simp add: align_surface_def split: prod.split sum.split)

text \<open>
  The ray after a call of \<open>align\<close> on the values: a call with two actuators that runs a
  round has divided a finite ray of nonzero norm by its norm; a call that runs no round
  has not.
\<close>

lemma align_ray_after_call:
  assumes "all_finite ray" "norm_all ray \<noteq> Fin 0"
  shows "snd (align U self ray max_num_iterations min_eps)
           = (if length (actuator_list self) = 2 \<and> 0 < max_num_iterations
              then div_all ray (norm_all ray) else ray)
         \<and> snd (align_surface U self ray surface_points surface_normals)
           = (if length (actuator_list self) = 2 then div_all ray (norm_all ray) else ray)"
proof -
  have loop: "incident_ray_direction (align_loop U self e n (initial_vars ray))
              = (if n = 0 then ray else div_all ray (norm_all ray))" for e n
    using align_loop_ray [OF assms, of "initial_vars ray" U self e n]
    by (simp add: initial_vars_def)
  show ?thesis
    by (simp add: align_surface_snd align_snd loop)
qed

subsection \<open>The store after the call\<close>

lemma align_round_store_result:
  "align_round_store U self refs min_eps (s, st)
     = (fst (align_round U (load_self self refs st) min_eps
               (s \<lparr> incident_ray_direction := st ! incident_ray_direction_ref refs \<rparr>)),
        snd (align_round U (load_self self refs st) min_eps
               (s \<lparr> incident_ray_direction := st ! incident_ray_direction_ref refs \<rparr>)),
        st[incident_ray_direction_ref refs
             := div_all (st ! incident_ray_direction_ref refs)
                  (norm_all (st ! incident_ray_direction_ref refs))])"
proof -
  obtain b s' where r: "align_round U (load_self self refs st) min_eps
      (s \<lparr> incident_ray_direction := st ! incident_ray_direction_ref refs \<rparr>) = (b, s')"
    by (cases "align_round U (load_self self refs st) min_eps
      (s \<lparr> incident_ray_direction := st ! incident_ray_direction_ref refs \<rparr>)")
  have "incident_ray_direction s'
        = div_all (st ! incident_ray_direction_ref refs)
            (norm_all (st ! incident_ray_direction_ref refs))"
    using align_round_ray [of U "load_self self refs st" min_eps
      "s \<lparr> incident_ray_direction := st ! incident_ray_direction_ref refs \<rparr>"] r
    by simp
  then show ?thesis using r by (simp add: align_round_store_def)
qed

lemma align_round_sets_orientation:
  "orientation (snd (align_round U self min_eps s)) \<noteq> None"
  by (simp add: align_round_def Let_def)

lemma align_loop_store_result:
  assumes r: "incident_ray_direction_ref refs < length st0"
    and fin: "all_finite (st0 ! incident_ray_direction_ref refs)"
    and nz: "norm_all (st0 ! incident_ray_direction_ref refs) \<noteq> Fin 0"
  shows "st = st0 \<or> st = st0[incident_ray_direction_ref refs
                      := div_all (st0 ! incident_ray_direction_ref refs)
                           (norm_all (st0 ! incident_ray_direction_ref refs))]
     \<Longrightarrow> orientation s \<noteq> None \<or> st = st0
     \<Longrightarrow> snd (align_loop_store U self refs min_eps n (s, st))
           = (if n = 0 then st
              else st0[incident_ray_direction_ref refs
                      := div_all (st0 ! incident_ray_direction_ref refs)
                           (norm_all (st0 ! incident_ray_direction_ref refs))])
         \<and> (orientation (fst (align_loop_store U self refs min_eps n (s, st))) = None
              \<longrightarrow> n = 0 \<and> orientation s = None)"
proof (induction n arbitrary: s st)
  case 0
  then show ?case by simp
next
  case (Suc n)
  let ?r = "incident_ray_direction_ref refs"
  let ?N = "div_all (st0 ! ?r) (norm_all (st0 ! ?r))"
  let ?s0 = "s \<lparr> incident_ray_direction := st ! ?r \<rparr>"
  let ?b = "fst (align_round U (load_self self refs st) min_eps ?s0)"
  let ?s' = "snd (align_round U (load_self self refs st) min_eps ?s0)"
  have cell: "st ! ?r = st0 ! ?r \<or> st ! ?r = ?N"
    using Suc.prems(1) r by auto
  have "div_all (st ! ?r) (norm_all (st ! ?r)) = ?N"
    using cell normalize_idem [OF fin nz] by auto
  moreover have "st[?r := ?N] = st0[?r := ?N]"
    using Suc.prems(1) by auto
  ultimately have round: "align_round_store U self refs min_eps (s, st) = (?b, ?s', st0[?r := ?N])"
    by (simp add: align_round_store_result)
  have ori: "orientation ?s' \<noteq> None" by (rule align_round_sets_orientation)
  show ?case
  proof (cases ?b)
    case True
    then show ?thesis using round ori by simp
  next
    case False
    then have step: "align_loop_store U self refs min_eps (Suc n) (s, st)
               = align_loop_store U self refs min_eps n (?s', st0[?r := ?N])"
      using round by simp
    have "snd (align_loop_store U self refs min_eps n (?s', st0[?r := ?N]))
           = (if n = 0 then st0[?r := ?N] else st0[?r := ?N])
         \<and> (orientation (fst (align_loop_store U self refs min_eps n (?s', st0[?r := ?N]))) = None
              \<longrightarrow> n = 0 \<and> orientation ?s' = None)"
      by (rule Suc.IH) (simp_all add: ori)
    then show ?thesis using step ori by simp
  qed
qed

text \<open>
  When the ray is neither the kinematic's position nor its aim point, a call on the store
  is the call of \<open>align\<close> on the values of the tensors.
\<close>

lemma load_self_update:
  "r \<noteq> position_ref refs \<Longrightarrow> r \<noteq> aim_point_ref refs
     \<Longrightarrow> load_self self refs (st[r := x]) = load_self self refs st"
  by (simp add: load_self_def)

lemma align_loop_store_refines:
  assumes "incident_ray_direction_ref refs \<noteq> position_ref refs"
    and "incident_ray_direction_ref refs \<noteq> aim_point_ref refs"
  shows "incident_ray_direction_ref refs < length st
     \<Longrightarrow> incident_ray_direction s = st ! incident_ray_direction_ref refs
     \<Longrightarrow> align_loop_store U self refs min_eps n (s, st)
           = (align_loop U (load_self self refs st) min_eps n s,
              st[incident_ray_direction_ref refs
                   := incident_ray_direction (align_loop U (load_self self refs st) min_eps n s)])"
proof (induction n arbitrary: s st)
  case 0
  then show ?case by simp
next
  case (Suc n)
  let ?r = "incident_ray_direction_ref refs"
  let ?self = "load_self self refs st"
  obtain b s' where round: "align_round U ?self min_eps s = (b, s')"
    by (cases "align_round U ?self min_eps s")
  have same: "s \<lparr> incident_ray_direction := st ! ?r \<rparr> = s"
    using Suc.prems(2) by simp
  have store: "align_round_store U self refs min_eps (s, st)
               = (b, s', st[?r := incident_ray_direction s'])"
    by (simp add: align_round_store_def same round)
  show ?case
  proof (cases b)
    case True
    then show ?thesis using store round by simp
  next
    case False
    have "align_loop_store U self refs min_eps n (s', st[?r := incident_ray_direction s'])
          = (align_loop U (load_self self refs (st[?r := incident_ray_direction s'])) min_eps n s',
             (st[?r := incident_ray_direction s'])
               [?r := incident_ray_direction
                       (align_loop U (load_self self refs (st[?r := incident_ray_direction s']))
                          min_eps n s')])"
      by (rule Suc.IH) (simp_all add: Suc.prems(1))
    then show ?thesis
      using False store round by (simp add: load_self_update [OF assms])
  qed
qed

lemma align_store_refines:
  assumes "incident_ray_direction_ref refs < length st"
    and "incident_ray_direction_ref refs \<noteq> position_ref refs"
    and "incident_ray_direction_ref refs \<noteq> aim_point_ref refs"
  shows "align_store U self refs st max_num_iterations min_eps
         = (fst (align U (load_self self refs st) (st ! incident_ray_direction_ref refs)
                   max_num_iterations min_eps),
            st[incident_ray_direction_ref refs
                 := snd (align U (load_self self refs st) (st ! incident_ray_direction_ref refs)
                           max_num_iterations min_eps)])"
proof -
  have "align_loop_store U self refs min_eps (nat max_num_iterations)
          (initial_vars (st ! incident_ray_direction_ref refs), st)
        = (align_loop U (load_self self refs st) min_eps (nat max_num_iterations)
             (initial_vars (st ! incident_ray_direction_ref refs)),
           st[incident_ray_direction_ref refs
                := incident_ray_direction
                     (align_loop U (load_self self refs st) min_eps (nat max_num_iterations)
                        (initial_vars (st ! incident_ray_direction_ref refs)))])"
    by (rule align_loop_store_refines [OF assms(2,3) assms(1)]) (simp add: initial_vars_def)
  then show ?thesis
    by (simp add: align_store_def align_def Let_def load_self_def split: option.split)
qed

lemma align_store_returns:
  assumes "incident_ray_direction_ref refs < length st"
    and "all_finite (st ! incident_ray_direction_ref refs)"
    and "norm_all (st ! incident_ray_direction_ref refs) \<noteq> Fin 0"
    and "align_store U self refs st max_num_iterations min_eps = (Inr ori, st')"
  shows "st' = st[incident_ray_direction_ref refs
                   := div_all (st ! incident_ray_direction_ref refs)
                        (norm_all (st ! incident_ray_direction_ref refs))]"
proof -
  let ?r = "incident_ray_direction_ref refs"
  let ?n = "nat max_num_iterations"
  let ?p = "align_loop_store U self refs min_eps ?n (initial_vars (st ! ?r), st)"
  have loop: "snd ?p = (if ?n = 0 then st else st[?r := div_all (st ! ?r) (norm_all (st ! ?r))])
         \<and> (orientation (fst ?p) = None \<longrightarrow> ?n = 0 \<and> orientation (initial_vars (st ! ?r)) = None)"
    by (rule align_loop_store_result [OF assms(1-3)]) simp_all
  have two: "length (actuator_list self) = 2"
    using assms(4) by (auto simp add: align_store_def split: if_splits)
  obtain s where p: "?p = (s, st')" and some: "orientation s \<noteq> None"
    using assms(4) two by (auto simp add: align_store_def split: prod.splits option.splits)
  have "?n \<noteq> 0"
  proof
    assume "?n = 0"
    with p have "(initial_vars (st ! ?r), st) = (s, st')" by auto
    then have "orientation s = None" by (auto simp add: initial_vars_def)
    then show False using some by simp
  qed
  then show ?thesis using loop p by simp
qed

lemma align_surface_store_returns:
  assumes "align_surface_store U self refs st surface_points surface_normals = (Inr res, st')"
  shows "\<exists>ori. align_store U self refs st 2 (Fin (1 / 10000)) = (Inr ori, st')"
  using assms
  by (auto simp add: align_surface_store_def split: prod.splits sum.splits)

text \<open>
  C6. After a call of \<open>align\<close> that returns an orientation, and so after a call of
  \<open>align_surface\<close> that returns, the cell of \<open>incident_ray_direction\<close> holds the tensor it
  held before divided by its norm, a tensor of norm 1, when that tensor was finite and of
  nonzero norm. Every other cell of the store holds what it held before, the kinematic's
  \<open>position\<close> and \<open>aim_point\<close> among them, and the store has no more cells than before.
\<close>

theorem incident_ray_normalized_in_place:
  assumes "incident_ray_direction_ref refs < length st"
    and "all_finite (st ! incident_ray_direction_ref refs)"
    and "norm_all (st ! incident_ray_direction_ref refs) \<noteq> Fin 0"
  shows "(align_store U self refs st max_num_iterations min_eps = (Inr ori, st')
          \<or> align_surface_store U self refs st surface_points surface_normals = (Inr res, st'))
         \<longrightarrow> st' ! incident_ray_direction_ref refs
               = div_all (st ! incident_ray_direction_ref refs)
                   (norm_all (st ! incident_ray_direction_ref refs))
             \<and> norm_all (st' ! incident_ray_direction_ref refs) = Fin 1
             \<and> length st' = length st
             \<and> (\<forall>a. a \<noteq> incident_ray_direction_ref refs \<longrightarrow> st' ! a = st ! a)"
proof
  let ?r = "incident_ray_direction_ref refs"
  assume "align_store U self refs st max_num_iterations min_eps = (Inr ori, st')
          \<or> align_surface_store U self refs st surface_points surface_normals = (Inr res, st')"
  then have st': "st' = st[?r := div_all (st ! ?r) (norm_all (st ! ?r))]"
    using align_store_returns [OF assms] align_surface_store_returns by blast
  have "norm_all (div_all (st ! ?r) (norm_all (st ! ?r))) = Fin 1"
    using normalize_unit [OF assms(2,3)] by simp
  then show "st' ! ?r = div_all (st ! ?r) (norm_all (st ! ?r))
             \<and> norm_all (st' ! ?r) = Fin 1
             \<and> length st' = length st
             \<and> (\<forall>a. a \<noteq> ?r \<longrightarrow> st' ! a = st ! a)"
    using st' assms(1) by simp
qed

lemma sqrt_4 [simp]: "sqrt 4 = 2"
  using real_sqrt_abs [of 2] by simp

lemma south_ray_norm: "all_finite south_ray" "norm_all south_ray = Fin 2"
  by (simp_all add: south_ray_def all_finite_def vec_finite_def norm_all_def sumsq_def)

lemma south_ray_normalized:
  "div_all south_ray (norm_all south_ray) = [Vec4 (Fin 0) (Fin (- 1)) (Fin 0) (Fin 0)]"
  by (simp add: south_ray_norm) (simp add: south_ray_def div_all_def vdiv_def)

section \<open>A run of the concrete kinematic\<close>

lemmas mat_defs = dot_def mat_vec_def matmul_def vec_mat_def col0_def col1_def col2_def col3_def
lemmas vec_defs = vadd_def vsub_def vabs_def vdiv_def sumsq_def div_all_def norm_all_def

lemma matmul_eye4_eye4 [simp]: "matmul eye4 eye4 = eye4"
  by (simp add: mat_defs eye4_def)

lemma std_utils_zero [simp]:
  "rotate_e std_utils (Fin 0) = eye4" "rotate_n std_utils (Fin 0) = eye4"
  "rotate_u std_utils (Fin 0) = eye4" "translate_enu std_utils (Fin 0) (Fin 0) (Fin 0) = eye4"
  by (simp_all add: std_utils_def std_rotate_e_def std_rotate_n_def std_rotate_u_def
      std_translate_enu_def eye4_def)

lemma zero_deviations_simps [simp]:
  "first_joint_translation_e zero_deviations = Fin 0"
  "first_joint_translation_n zero_deviations = Fin 0"
  "first_joint_translation_u zero_deviations = Fin 0"
  "first_joint_tilt_n zero_deviations = Fin 0"
  "first_joint_tilt_u zero_deviations = Fin 0"
  "second_joint_translation_e zero_deviations = Fin 0"
  "second_joint_translation_n zero_deviations = Fin 0"
  "second_joint_translation_u zero_deviations = Fin 0"
  "second_joint_tilt_e zero_deviations = Fin 0"
  "second_joint_tilt_n zero_deviations = Fin 0"
  "concentrator_translation_e zero_deviations = Fin 0"
  "concentrator_translation_n zero_deviations = Fin 0"
  "concentrator_translation_u zero_deviations = Fin 0"
  by (simp_all add: zero_deviations_def)

lemma plain_forward_chain_zero:
  "forward_chain std_utils (plain_body aim) [Fin 0] [Fin 0] = [eye4]"
  by (simp add: forward_chain_def Let_def)

lemma sqrt_10000 [simp]: "sqrt 10000 = 100"
  using real_sqrt_abs [of 100] by simp

lemma south_compute_locals:
  assumes "actuator_steps s = [(Fin 0, Fin 0)]"
    and "incident_ray_direction s = south_ray \<or> incident_ray_direction s = [Vec4 (Fin 0) (Fin (- 1)) (Fin 0) (Fin 0)]"
  shows "compute_locals std_utils (plain_body south_aim) s = south_locals"
  using assms(2)
proof
  assume "incident_ray_direction s = south_ray"
  then show ?thesis
    using assms(1)
    by (simp add: compute_locals_def Let_def plain_forward_chain_zero south_locals_def
        south_aim_def south_ray_def eye4_def mat_defs vec_defs)
next
  assume "incident_ray_direction s = [Vec4 (Fin 0) (Fin (- 1)) (Fin 0) (Fin 0)]"
  then show ?thesis
    using assms(1)
    by (simp add: compute_locals_def Let_def plain_forward_chain_zero south_locals_def
        south_aim_def eye4_def mat_defs vec_defs)
qed

lemma south_analytical_solution:
  "analytical_solution (plain_body aim) [Vec4 (Fin 0) (Fin (- 1)) (Fin 0) (Fin 0)] = [(Fin 0, Fin 0)]"
  by (simp add: analytical_solution_def Let_def arctan2_def t_pi_def)


lemma south_locals_simps [simp]:
  "orientations south_locals = [eye4]"
  "ray_normalized south_locals = [Vec4 (Fin 0) (Fin (- 1)) (Fin 0) (Fin 0)]"
  "desired_concentrator_normal south_locals = [Vec4 (Fin 0) (Fin (- 1)) (Fin 0) (Fin 0)]"
  "loss south_locals = [Vec4 (Fin 0) (Fin 0) (Fin 0) (Fin 0)]"
  by (simp_all add: south_locals_def)

lemma south_round_1:
  "align_round std_utils (plain_body south_aim) default_min_eps (initial_vars south_ray)
     = (False, south_vars 1)"
proof -
  have "compute_locals std_utils (plain_body south_aim) (initial_vars south_ray) = south_locals"
    by (rule south_compute_locals) (simp_all add: initial_vars_def)
  then show ?thesis
    by (simp add: align_round_def Let_def converged_def south_analytical_solution)
       (simp add: initial_vars_def south_vars_def)
qed

lemma south_round_2:
  "align_round std_utils (plain_body south_aim) default_min_eps (south_vars k)
     = (True, south_vars (Suc k))"
proof -
  have "compute_locals std_utils (plain_body south_aim) (south_vars k) = south_locals"
    by (rule south_compute_locals) (simp_all add: south_vars_def)
  then show ?thesis
    by (simp add: align_round_def Let_def)
       (simp add: south_vars_def converged_def any_le_def vec_any_le_def vabs_def vsub_def
          default_min_eps_def)
qed

lemma south_loop:
  "align_loop std_utils (plain_body south_aim) default_min_eps (Suc (Suc n)) (initial_vars south_ray)
     = south_vars 2"
  by (simp add: south_round_1 south_round_2 numeral_2_eq_2)

lemma south_align:
  "align std_utils (plain_body south_aim) south_ray 2 default_min_eps
     = (Inr [eye4], [Vec4 (Fin 0) (Fin (- 1)) (Fin 0) (Fin 0)])"
proof -
  have "nat 2 = Suc (Suc 0)" by simp
  then have "align_loop std_utils (plain_body south_aim) default_min_eps (nat 2) (initial_vars south_ray)
        = south_vars 2"
    by (simp only: south_loop)
  moreover have "apply_offsets std_utils zero_offsets [eye4] = [eye4]"
    by (simp add: apply_offsets_def zero_offsets_def)
  ultimately show ?thesis
    by (simp add: align_def Let_def south_vars_def)
qed

section \<open>The store after a run of the concrete kinematic\<close>

lemma south_store_simps [simp]:
  "incident_ray_direction_ref south_refs = 0"
  "position_ref south_refs = Suc 0"
  "aim_point_ref south_refs = 2"
  "length south_store = 3"
  "south_store ! 0 = south_ray"
  "south_store ! Suc 0 = [Vec4 (Fin 0) (Fin 0) (Fin 0) (Fin 1)]"
  "south_store ! 2 = [south_aim]"
  "load_self (plain_body south_aim) south_refs south_store = plain_body south_aim"
  by (simp_all add: south_refs_def south_store_def load_self_def plain_body_def)

lemma south_align_store:
  "align_store std_utils (plain_body south_aim) south_refs south_store 2 default_min_eps
     = (Inr [eye4], south_store[0 := [Vec4 (Fin 0) (Fin (- 1)) (Fin 0) (Fin 0)]])"
  using align_store_refines [of south_refs south_store std_utils "plain_body south_aim" 2 default_min_eps]
  by (simp add: south_align)

lemma south_align_surface_store:
  "align_surface_store std_utils (plain_body south_aim) south_refs south_store [] []
     = (Inr ([], []), south_store[0 := [Vec4 (Fin 0) (Fin (- 1)) (Fin 0) (Fin 0)]])"
  using south_align_store
  by (simp add: align_surface_store_def default_min_eps_def transform_all_def)

theorem incident_ray_normalized_in_place_witness:
  "incident_ray_direction_ref south_refs < length south_store
   \<and> all_finite (south_store ! incident_ray_direction_ref south_refs)
   \<and> norm_all (south_store ! incident_ray_direction_ref south_refs) \<noteq> Fin 0
   \<and> fst (align_store std_utils (plain_body south_aim) south_refs south_store 2 default_min_eps)
       = Inr [eye4]
   \<and> snd (align_store std_utils (plain_body south_aim) south_refs south_store 2 default_min_eps)
         ! incident_ray_direction_ref south_refs
       = [Vec4 (Fin 0) (Fin (- 1)) (Fin 0) (Fin 0)]
   \<and> snd (align_store std_utils (plain_body south_aim) south_refs south_store 2 default_min_eps)
         ! position_ref south_refs
       = [Vec4 (Fin 0) (Fin 0) (Fin 0) (Fin 1)]
   \<and> snd (align_store std_utils (plain_body south_aim) south_refs south_store 2 default_min_eps)
         ! aim_point_ref south_refs
       = [south_aim]
   \<and> length (snd (align_store std_utils (plain_body south_aim) south_refs south_store 2
                     default_min_eps)) = 3"
proof -
  let ?result = "align_store std_utils (plain_body south_aim) south_refs south_store 2 default_min_eps"
  have returns: "?result = (Inr [eye4], snd ?result)"
    by (simp add: south_align_store)
  have finite: "all_finite (south_store ! incident_ray_direction_ref south_refs)"
    and nonzero: "norm_all (south_store ! incident_ray_direction_ref south_refs) \<noteq> Fin 0"
    by (simp_all add: south_ray_norm)
  have below: "incident_ray_direction_ref south_refs < length south_store"
    by simp
  have "snd ?result ! incident_ray_direction_ref south_refs
          = div_all (south_store ! incident_ray_direction_ref south_refs)
              (norm_all (south_store ! incident_ray_direction_ref south_refs))
        \<and> norm_all (snd ?result ! incident_ray_direction_ref south_refs) = Fin 1
        \<and> length (snd ?result) = length south_store
        \<and> (\<forall>a. a \<noteq> incident_ray_direction_ref south_refs
               \<longrightarrow> snd ?result ! a = south_store ! a)"
    using incident_ray_normalized_in_place
      [where refs = south_refs and st = south_store and U = std_utils
         and self = "plain_body south_aim" and max_num_iterations = 2
         and min_eps = default_min_eps and ori = "[eye4]" and st' = "snd ?result",
       OF below finite nonzero]
      returns
    by blast
  moreover have "fst ?result = Inr [eye4]"
    by (simp add: south_align_store)
  moreover have "div_all (south_store ! incident_ray_direction_ref south_refs)
              (norm_all (south_store ! incident_ray_direction_ref south_refs))
        = [Vec4 (Fin 0) (Fin (- 1)) (Fin 0) (Fin 0)]"
    by (simp add: south_ray_normalized)
  ultimately show ?thesis
    using below finite nonzero by simp
qed

section \<open>A run that the fourth element of the loss ends\<close>

lemma sqrt_390625 [simp]: "sqrt 390625 = 625"
  using real_sqrt_abs [of 625] by simp

lemma sqrt_1024_625 [simp]: "sqrt (1024 / 625) = 32 / 25"
  using real_sqrt_abs [of "32 / 25"] by (simp add: power2_eq_square)

lemma sqrt_25_16: "sqrt (25 / 16) = 5 / 4"
  using real_sqrt_abs [of "5 / 4"] by (simp add: power2_eq_square)

lemma cos_arcsin_35: "cos (arcsin (3 / 5)) = 4 / 5"
  using real_sqrt_abs [of "4 / 5"] by (simp add: cos_arcsin power2_eq_square)

lemma cos_arctan_34: "cos (arctan (3 / 4)) = 4 / 5"
  by (simp add: cos_arctan power2_eq_square sqrt_25_16)

lemma sin_arctan_34: "sin (arctan (3 / 4)) = 3 / 5"
  by (simp add: sin_arctan power2_eq_square sqrt_25_16)

lemma rot_e_val:
  "rotate_e std_utils (Fin (- arctan (3 / 4)))
   = Mat4 (Vec4 (Fin 1) (Fin 0) (Fin 0) (Fin 0)) (Vec4 (Fin 0) (Fin (4 / 5)) (Fin (3 / 5)) (Fin 0))
          (Vec4 (Fin 0) (Fin (- (3 / 5))) (Fin (4 / 5)) (Fin 0)) (Vec4 (Fin 0) (Fin 0) (Fin 0) (Fin 1))"
  by (simp add: std_utils_def std_rotate_e_def cos_arctan_34 sin_arctan_34)

lemma rot_u_val:
  "rotate_u std_utils (Fin (arcsin (3 / 5)))
   = Mat4 (Vec4 (Fin (4 / 5)) (Fin (- (3 / 5))) (Fin 0) (Fin 0)) (Vec4 (Fin (3 / 5)) (Fin (4 / 5)) (Fin 0) (Fin 0))
          (Vec4 (Fin 0) (Fin 0) (Fin 1) (Fin 0)) (Vec4 (Fin 0) (Fin 0) (Fin 0) (Fin 1))"
  by (simp add: std_utils_def std_rotate_u_def cos_arcsin_35)

lemma matmul_eye4_left_val:
  "matmul eye4
     (Mat4 (Vec4 (Fin a0) (Fin a1) (Fin a2) (Fin a3)) (Vec4 (Fin b0) (Fin b1) (Fin b2) (Fin b3))
        (Vec4 (Fin c0) (Fin c1) (Fin c2) (Fin c3)) (Vec4 (Fin d0) (Fin d1) (Fin d2) (Fin d3)))
   = Mat4 (Vec4 (Fin a0) (Fin a1) (Fin a2) (Fin a3)) (Vec4 (Fin b0) (Fin b1) (Fin b2) (Fin b3))
       (Vec4 (Fin c0) (Fin c1) (Fin c2) (Fin c3)) (Vec4 (Fin d0) (Fin d1) (Fin d2) (Fin d3))"
  by (simp add: mat_defs eye4_def)

lemma matmul_eye4_right_val:
  "matmul
     (Mat4 (Vec4 (Fin a0) (Fin a1) (Fin a2) (Fin a3)) (Vec4 (Fin b0) (Fin b1) (Fin b2) (Fin b3))
        (Vec4 (Fin c0) (Fin c1) (Fin c2) (Fin c3)) (Vec4 (Fin d0) (Fin d1) (Fin d2) (Fin d3)))
     eye4
   = Mat4 (Vec4 (Fin a0) (Fin a1) (Fin a2) (Fin a3)) (Vec4 (Fin b0) (Fin b1) (Fin b2) (Fin b3))
       (Vec4 (Fin c0) (Fin c1) (Fin c2) (Fin c3)) (Vec4 (Fin d0) (Fin d1) (Fin d2) (Fin d3))"
  by (simp add: mat_defs eye4_def)

lemma steep_locals_1:
  "compute_locals std_utils (plain_body south_aim) (initial_vars steep_ray)
   = \<lparr> joint_1_angles = [Fin 0], joint_2_angles = [Fin 0], orientations = [eye4],
       concentrator_normals = [Vec4 (Fin 0) (Fin (- 1)) (Fin 0) (Fin 0)],
       concentrator_origins = [Vec4 (Fin 0) (Fin 0) (Fin 0) (Fin 1)],
       desired_reflect_vec = [Vec4 (Fin 0) (Fin (- 1)) (Fin 0) (Fin 0)],
       ray_normalized = [Vec4 (Fin (96 / 125)) (Fin (113 / 625)) (Fin (384 / 625)) (Fin 0)],
       desired_concentrator_normal = [Vec4 (Fin (3 / 5)) (Fin (- (16 / 25))) (Fin (12 / 25)) (Fin 0)],
       loss = [Vec4 (Fin (3 / 5)) (Fin (9 / 25)) (Fin (12 / 25)) (Fin 0)] \<rparr>"
  by (simp add: compute_locals_def Let_def initial_vars_def plain_forward_chain_zero steep_ray_def
      south_aim_def eye4_def mat_defs vec_defs)

lemma steep_solution:
  "analytical_solution (plain_body aim) [Vec4 (Fin (3 / 5)) (Fin (- (16 / 25))) (Fin (12 / 25)) (Fin 0)]
   = [(Fin (- arctan (3 / 4)), Fin (arcsin (3 / 5)))]"
  by (simp add: analytical_solution_def Let_def arctan2_def t_pi_def cos_arcsin_35 arcsin_minus
      arctan_minus)

lemma steep_forward_chain:
  "forward_chain std_utils (plain_body aim) [Fin (- arctan (3 / 4))] [Fin (arcsin (3 / 5))]
   = [steep_orientation]"
  by (simp add: forward_chain_def Let_def rot_e_val rot_u_val matmul_eye4_left_val
        matmul_eye4_right_val)
     (simp add: mat_defs steep_orientation_def eye4_def)

lemma steep_locals_2:
  "compute_locals std_utils (plain_body south_aim) steep_vars
   = \<lparr> joint_1_angles = [Fin (- arctan (3 / 4))], joint_2_angles = [Fin (arcsin (3 / 5))],
       orientations = [steep_orientation],
       concentrator_normals = [Vec4 (Fin (3 / 5)) (Fin (- (16 / 25))) (Fin (12 / 25)) (Fin 0)],
       concentrator_origins = [Vec4 (Fin 0) (Fin 0) (Fin 0) (Fin 1)],
       desired_reflect_vec = [Vec4 (Fin 0) (Fin (- 1)) (Fin 0) (Fin 0)],
       ray_normalized = [Vec4 (Fin (96 / 125)) (Fin (113 / 625)) (Fin (384 / 625)) (Fin 0)],
       desired_concentrator_normal = [Vec4 (Fin (3 / 5)) (Fin (- (16 / 25))) (Fin (12 / 25)) (Fin 0)],
       loss = [Vec4 (Fin 0) (Fin 0) (Fin 0) (Fin 0)] \<rparr>"
  by (simp add: compute_locals_def Let_def steep_vars_def steep_forward_chain)
     (simp add: steep_orientation_def south_aim_def mat_defs vec_defs)

lemma steep_round_1:
  "align_round std_utils (plain_body south_aim) default_min_eps (initial_vars steep_ray)
     = (False, steep_vars)"
  by (simp add: align_round_def Let_def converged_def steep_locals_1 steep_solution)
     (simp add: initial_vars_def steep_vars_def)

lemma steep_round_2:
  "align_round std_utils (plain_body south_aim) default_min_eps steep_vars
     = (True, steep_vars \<lparr> orientation := Some [steep_orientation], rounds := 2 \<rparr>)"
  by (simp add: align_round_def Let_def steep_locals_2)
     (simp add: steep_vars_def converged_def any_le_def vec_any_le_def vabs_def vsub_def
        default_min_eps_def)

lemma steep_loop:
  "align_loop std_utils (plain_body south_aim) default_min_eps (Suc (Suc n)) (initial_vars steep_ray)
     = steep_vars \<lparr> orientation := Some [steep_orientation], rounds := 2 \<rparr>"
  by (simp add: steep_round_1 steep_round_2)

text \<open>
  C3. The loss of a round is a tensor of vectors of four elements, and the test of line
  233 is over all four: the east, north and up elements of the normal and the fourth,
  homogeneous one, which is 0 in a finite desired normal and in a finite mirror normal,
  so that neither the loss nor its change has anything but 0 there. For the kinematic
  \<open>plain_body south_aim\<close> and the incident ray \<open>(480, 113, 384, 0)\<close>, with
  \<open>max_num_iterations = 5\<close>: the first round has the loss \<open>(3/5, 9/25, 12/25, 0)\<close> and
  solves the joint angles \<open>- arctan (3/4)\<close> and \<open>arcsin (3/5)\<close>; with them the mirror
  normal of the second round is the desired one, the loss is 0 and the change of the loss
  is \<open>(3/5, 9/25, 12/25, 0)\<close>. No element of the normal has changed by \<open>min_eps =
  0.0001\<close> or less, and yet the second round leaves the loop, on the fourth element: the
  loop has run 2 of its 5 rounds.
\<close>

theorem convergence_test_counts_homogeneous_element:
  "align_round std_utils (plain_body south_aim) default_min_eps (initial_vars steep_ray)
     = (False, steep_vars)
   \<and> last_iteration_loss steep_vars
     = Some [Vec4 (Fin (3 / 5)) (Fin (9 / 25)) (Fin (12 / 25)) (Fin 0)]
   \<and> loss (compute_locals std_utils (plain_body south_aim) steep_vars)
     = [Vec4 (Fin 0) (Fin 0) (Fin 0) (Fin 0)]
   \<and> bcast2 (\<lambda>a b. vabs (vsub a b))
       [Vec4 (Fin (3 / 5)) (Fin (9 / 25)) (Fin (12 / 25)) (Fin 0)]
       (loss (compute_locals std_utils (plain_body south_aim) steep_vars))
     = [Vec4 (Fin (3 / 5)) (Fin (9 / 25)) (Fin (12 / 25)) (Fin 0)]
   \<and> \<not> Fin (3 / 5) \<le> default_min_eps \<and> \<not> Fin (9 / 25) \<le> default_min_eps
   \<and> \<not> Fin (12 / 25) \<le> default_min_eps \<and> Fin 0 \<le> default_min_eps
   \<and> fst (align_round std_utils (plain_body south_aim) default_min_eps steep_vars)
   \<and> rounds (align_loop std_utils (plain_body south_aim) default_min_eps (nat 5)
         (initial_vars steep_ray)) = 2"
proof -
  have "nat 5 = Suc (Suc 3)" by simp
  then have "rounds (align_loop std_utils (plain_body south_aim) default_min_eps (nat 5)
         (initial_vars steep_ray)) = 2"
    by (simp only: steep_loop) simp
  then show ?thesis
    by (simp add: steep_round_1 steep_round_2 steep_locals_2)
       (simp add: steep_vars_def default_min_eps_def vabs_def vsub_def)
qed

section \<open>A run whose second round makes no solve\<close>

lemma sqrt_2356225 [simp]: "sqrt 2356225 = 1535"
  using real_sqrt_abs [of 1535] by simp

lemma sqrt_625 [simp]: "sqrt 625 = 25"
  using real_sqrt_abs [of 25] by simp

lemma sqrt_64_25 [simp]: "sqrt (64 / 25) = 8 / 5"
  using real_sqrt_abs [of "8 / 5"] by (simp add: power2_eq_square)

lemma sqrt_36_25 [simp]: "sqrt (36 / 25) = 6 / 5"
  using real_sqrt_abs [of "6 / 5"] by (simp add: power2_eq_square)

lemma shifted_body_simps [simp]:
  "position shifted_body = Vec4 (Fin 0) (Fin 0) (Fin 0) (Fin 1)"
  "aim_point shifted_body = Vec4 (Fin 0) (Fin (- 1535)) (Fin (- 1680)) (Fin 1)"
  "deviation_parameters shifted_body = zero_deviations \<lparr> second_joint_translation_u := Fin (- 1680) \<rparr>"
  "actuator_list shifted_body = [identity_actuator, identity_actuator]"
  by (simp_all add: shifted_body_def)

lemma shifted_translate:
  "translate_enu std_utils (Fin 0) (Fin 0) (Fin (- 1680)) = shifted_translation"
  by (simp add: std_utils_def std_translate_enu_def shifted_translation_def)

lemma shifted_forward_chain_1:
  "forward_chain std_utils shifted_body [Fin 0] [Fin 0] = [shifted_translation]"
  by (simp add: forward_chain_def Let_def shifted_translate)
     (simp add: shifted_translation_def matmul_eye4_left_val matmul_eye4_right_val)

lemma shifted_forward_chain_2:
  "forward_chain std_utils shifted_body [Fin (- arctan (3 / 4))] [Fin 0] = [shifted_orientation]"
  apply (simp add: forward_chain_def Let_def shifted_translate rot_e_val)
  apply (simp add: shifted_translation_def matmul_eye4_left_val matmul_eye4_right_val)
  apply (simp add: mat_defs shifted_orientation_def eye4_def)
  done

lemma shifted_locals_1:
  "compute_locals std_utils shifted_body (initial_vars slant_ray)
   = \<lparr> joint_1_angles = [Fin 0], joint_2_angles = [Fin 0], orientations = [shifted_translation],
       concentrator_normals = [Vec4 (Fin 0) (Fin (- 1)) (Fin 0) (Fin 0)],
       concentrator_origins = [Vec4 (Fin 0) (Fin 0) (Fin (- 1680)) (Fin 1)],
       desired_reflect_vec = [Vec4 (Fin 0) (Fin (- 1)) (Fin 0) (Fin 0)],
       ray_normalized = [Vec4 (Fin 0) (Fin (- (7 / 25))) (Fin (24 / 25)) (Fin 0)],
       desired_concentrator_normal = [Vec4 (Fin 0) (Fin (- (4 / 5))) (Fin (3 / 5)) (Fin 0)],
       loss = [Vec4 (Fin 0) (Fin (1 / 5)) (Fin (3 / 5)) (Fin 0)] \<rparr>"
  by (simp add: compute_locals_def Let_def initial_vars_def shifted_forward_chain_1 slant_ray_def)
     (simp add: shifted_translation_def mat_defs vec_defs)

lemma shifted_locals_2:
  "compute_locals std_utils shifted_body shifted_vars
   = \<lparr> joint_1_angles = [Fin (- arctan (3 / 4))], joint_2_angles = [Fin 0],
       orientations = [shifted_orientation],
       concentrator_normals = [Vec4 (Fin 0) (Fin (- (4 / 5))) (Fin (3 / 5)) (Fin 0)],
       concentrator_origins = [Vec4 (Fin 0) (Fin (- 1008)) (Fin (- 1344)) (Fin 1)],
       desired_reflect_vec = [Vec4 (Fin 0) (Fin (- (527 / 625))) (Fin (- (336 / 625))) (Fin 0)],
       ray_normalized = [Vec4 (Fin 0) (Fin (- (7 / 25))) (Fin (24 / 25)) (Fin 0)],
       desired_concentrator_normal = [Vec4 (Fin 0) (Fin (- (117 / 125))) (Fin (44 / 125)) (Fin 0)],
       loss = [Vec4 (Fin 0) (Fin (17 / 125)) (Fin (31 / 125)) (Fin 0)] \<rparr>"
  by (simp add: compute_locals_def Let_def shifted_vars_def shifted_forward_chain_2)
     (simp add: shifted_orientation_def mat_defs vec_defs)

lemma shifted_solution_1:
  "analytical_solution shifted_body [Vec4 (Fin 0) (Fin (- (4 / 5))) (Fin (3 / 5)) (Fin 0)]
   = [(Fin (- arctan (3 / 4)), Fin 0)]"
  by (simp add: analytical_solution_def Let_def arctan2_def t_pi_def arctan_minus)

lemma shifted_solution_2:
  "analytical_solution shifted_body [Vec4 (Fin 0) (Fin (- (117 / 125))) (Fin (44 / 125)) (Fin 0)]
   = [(Fin (- arctan (44 / 117)), Fin 0)]"
  by (simp add: analytical_solution_def Let_def arctan2_def t_pi_def arctan_minus)

lemma shifted_round_1:
  "align_round std_utils shifted_body default_min_eps (initial_vars slant_ray) = (False, shifted_vars)"
  by (simp add: align_round_def Let_def converged_def shifted_locals_1 shifted_solution_1)
     (simp add: initial_vars_def shifted_vars_def)

lemma shifted_round_2:
  "align_round std_utils shifted_body default_min_eps shifted_vars
     = (True, shifted_vars \<lparr> orientation := Some [shifted_orientation], rounds := 2 \<rparr>)"
  by (simp add: align_round_def Let_def shifted_locals_2)
     (simp add: shifted_vars_def converged_def any_le_def vec_any_le_def vabs_def vsub_def
        default_min_eps_def)

text \<open>
  The claim C2 as stated, the solve in every iteration: the kinematic \<open>shifted_body\<close>
  with the incident ray \<open>(0, -7, 24, 0)\<close>. The first round solves, for the desired normal
  \<open>(0, -4/5, 3/5, 0)\<close>, the joint angles \<open>- arctan (3/4)\<close> and 0. In the second round the
  mirror origin has moved from \<open>(0, 0, -1680)\<close> to \<open>(0, -1008, -1344)\<close> and the desired
  normal is \<open>(0, -117/125, 44/125, 0)\<close>, for which the formulas give the first joint angle
  \<open>- arctan (44/117)\<close>. The round leaves the loop at its convergence test (the east
  element of the loss is 0 in both rounds) and makes no solve: the actuator steps are
  still those of the first round.
\<close>

theorem breaking_round_keeps_steps_counterexample:
  "align_round std_utils shifted_body default_min_eps (initial_vars slant_ray) = (False, shifted_vars)
   \<and> fst (align_round std_utils shifted_body default_min_eps shifted_vars)
   \<and> desired_concentrator_normal (compute_locals std_utils shifted_body shifted_vars)
     = [Vec4 (Fin 0) (Fin (- (117 / 125))) (Fin (44 / 125)) (Fin 0)]
   \<and> actuator_steps (snd (align_round std_utils shifted_body default_min_eps shifted_vars))
     = [(Fin (- arctan (3 / 4)), Fin 0)]
   \<and> map (\<lambda>m. (angles_to_motor_steps (actuator_list shifted_body ! 0)
                    (spec_joint_1_angle (deviation_parameters shifted_body) m),
                  angles_to_motor_steps (actuator_list shifted_body ! 1)
                    (spec_joint_2_angle (deviation_parameters shifted_body) m)))
       (desired_concentrator_normal (compute_locals std_utils shifted_body shifted_vars))
     = [(Fin (- arctan (44 / 117)), Fin 0)]
   \<and> actuator_steps (snd (align_round std_utils shifted_body default_min_eps shifted_vars))
     \<noteq> map (\<lambda>m. (angles_to_motor_steps (actuator_list shifted_body ! 0)
                    (spec_joint_1_angle (deviation_parameters shifted_body) m),
                  angles_to_motor_steps (actuator_list shifted_body ! 1)
                    (spec_joint_2_angle (deviation_parameters shifted_body) m)))
         (desired_concentrator_normal (compute_locals std_utils shifted_body shifted_vars))"
  by (simp only: analytical_solution_spec [symmetric] shifted_round_1 shifted_round_2
        shifted_locals_2 round_locals.simps shifted_solution_2 fst_conv snd_conv)
     (simp add: shifted_vars_def arctan_eq_iff)

section \<open>The orientation offsets\<close>

lemma vec_mat_eye4: "vec_finite v \<Longrightarrow> vec_mat v eye4 = v"
  by (drule vec_finite_ex) (auto simp add: vec_mat_def dot_def col0_def col1_def col2_def col3_def eye4_def)

lemma matmul_eye4_right: "mat_finite m \<Longrightarrow> matmul m eye4 = m"
  by (cases m) (simp add: mat_finite_def matmul_def vec_mat_eye4)

lemma forward_chain_offsets:
  "forward_chain U (self\<lparr>initial_orientation_offsets := off\<rparr>) j1 j2 = forward_chain U self j1 j2"
  by (simp add: forward_chain_def Let_def)

lemma compute_locals_offsets:
  "compute_locals U (self\<lparr>initial_orientation_offsets := off\<rparr>) s = compute_locals U self s"
  by (simp add: compute_locals_def forward_chain_offsets)

lemma analytical_solution_offsets:
  "analytical_solution (self\<lparr>initial_orientation_offsets := off\<rparr>) d = analytical_solution self d"
  by (simp add: analytical_solution_def Let_def)

lemma align_round_offsets:
  "align_round U (self\<lparr>initial_orientation_offsets := off\<rparr>) eps s = align_round U self eps s"
  by (simp add: align_round_def compute_locals_offsets analytical_solution_offsets Let_def)

lemma align_loop_offsets:
  "align_loop U (self\<lparr>initial_orientation_offsets := off\<rparr>) eps k s = align_loop U self eps k s"
  by (induction k arbitrary: s) (simp_all add: align_round_offsets split: prod.split bool.split)

lemma apply_offsets_zero:
  assumes "rotate_e U (Fin 0) = eye4" "rotate_n U (Fin 0) = eye4" "rotate_u U (Fin 0) = eye4"
    and "list_all mat_finite ori"
  shows "apply_offsets U zero_offsets ori = ori"
proof -
  have "matmul (matmul (matmul m eye4) eye4) eye4 = m" if "mat_finite m" for m
    using that by (simp add: matmul_eye4_right)
  then have "map (\<lambda>m. matmul (matmul (matmul m eye4) eye4) eye4) ori = ori"
    using assms(4) by (induction ori) simp_all
  then show ?thesis
    by (simp add: apply_offsets_def zero_offsets_def assms(1-3))
qed

text \<open>
  C7. The loop of \<open>align\<close> does not read the orientation offsets: they are applied once,
  after the loop, to the last orientation of the loop, by a product on the right with the
  rotation about the east axis, then the north axis, then the up axis. When the three
  offsets are zero the result of \<open>align\<close> is exactly this last orientation, given that a
  rotation by the angle 0 is the identity matrix (a property of the helpers, which the
  sources do not hold) and that the orientation has no NaN (for a NaN, \<open>NaN * 0\<close> is NaN
  and no equality holds in floats).
\<close>

theorem offsets_applied_after_loop:
  assumes "length (actuator_list self) = 2"
    and "orientation (align_loop U self min_eps (nat max_num_iterations) (initial_vars ray)) = Some ori"
  shows "align_loop U (self\<lparr>initial_orientation_offsets := off\<rparr>) min_eps n s
           = align_loop U self min_eps n s
         \<and> fst (align U (self\<lparr>initial_orientation_offsets := off\<rparr>) ray max_num_iterations min_eps)
           = Inr (map (\<lambda>m. matmul
                              (matmul
                                 (matmul m (rotate_e U (kinematic_initial_orientation_offset_e off)))
                                 (rotate_n U (kinematic_initial_orientation_offset_n off)))
                              (rotate_u U (kinematic_initial_orientation_offset_u off)))
                    ori)
         \<and> (rotate_e U (Fin 0) = eye4 \<and> rotate_n U (Fin 0) = eye4 \<and> rotate_u U (Fin 0) = eye4
              \<and> list_all mat_finite ori
            \<longrightarrow> fst (align U (self\<lparr>initial_orientation_offsets := zero_offsets\<rparr>) ray
                       max_num_iterations min_eps)
                = Inr ori)"
proof -
  have a: "fst (align U (self\<lparr>initial_orientation_offsets := x\<rparr>) ray max_num_iterations min_eps)
           = Inr (apply_offsets U x ori)" for x
    using assms by (simp add: align_def Let_def align_loop_offsets)
  show ?thesis
    using a [of off] a [of zero_offsets]
    by (auto simp add: align_loop_offsets apply_offsets_zero) (simp add: apply_offsets_def)
qed

theorem offsets_applied_after_loop_witness:
  "length (actuator_list (plain_body south_aim)) = 2
   \<and> orientation (align_loop std_utils (plain_body south_aim) default_min_eps (nat 2)
        (initial_vars south_ray)) = Some [eye4]
   \<and> rotate_e std_utils (Fin 0) = eye4 \<and> rotate_n std_utils (Fin 0) = eye4
   \<and> rotate_u std_utils (Fin 0) = eye4 \<and> list_all mat_finite [eye4]
   \<and> fst (align std_utils ((plain_body south_aim)\<lparr>initial_orientation_offsets := zero_offsets\<rparr>)
        south_ray 2 default_min_eps) = Inr [eye4]"
proof -
  have "nat 2 = Suc (Suc 0)" by simp
  then have l: "orientation (align_loop std_utils (plain_body south_aim) default_min_eps (nat 2)
        (initial_vars south_ray)) = Some [eye4]"
    by (simp only: south_loop) (simp add: south_vars_def)
  have f: "list_all mat_finite [eye4]"
    by (simp add: mat_finite_def vec_finite_def eye4_def)
  have n: "length (actuator_list (plain_body south_aim)) = 2" by simp
  have "fst (align std_utils ((plain_body south_aim)\<lparr>initial_orientation_offsets := zero_offsets\<rparr>)
          south_ray 2 default_min_eps) = Inr [eye4]"
    using offsets_applied_after_loop [OF n l, of zero_offsets 0 "initial_vars south_ray"] f
    by (metis std_utils_zero(1-3))
  then show ?thesis using n l f by simp
qed

section \<open>The desired normal\<close>

lemma compute_locals_normalized:
  "desired_reflect_vec (compute_locals U self s)
     = normalize (map (\<lambda>ob. vsub (aim_point self) ob) (concentrator_origins (compute_locals U self s)))"
  "ray_normalized (compute_locals U self s) = normalize (incident_ray_direction s)"
  "desired_concentrator_normal (compute_locals U self s)
     = normalize (bcast2 vadd (ray_normalized (compute_locals U self s))
         (desired_reflect_vec (compute_locals U self s)))"
  by (simp_all add: compute_locals_def Let_def normalize_def)

lemma sqrt_16 [simp]: "sqrt 16 = 4"
  using real_sqrt_abs [of 4] by simp

lemma two_rays_locals:
  "desired_concentrator_normal
     (compute_locals std_utils (plain_body south_aim) (initial_vars two_rays))
   = [Vec4 (Fin (3 / 8)) (Fin (- (5 / 8))) (Fin (1 / 8)) (Fin 0),
      Vec4 (Fin (1 / 4)) (Fin (- (5 / 8))) (Fin 0) (Fin 0)]"
  by (simp add: compute_locals_def Let_def initial_vars_def plain_forward_chain_zero two_rays_def
      south_aim_def eye4_def mat_defs vec_defs)

text \<open>
  C5. Lines 222, 223 and 225 divide each tensor by \<open>t.norm()\<close>, the norm of the whole
  tensor over all elements of the batch (lemma \<open>compute_locals_normalized\<close>), where a unit
  vector for every element of the batch needs the norm of that element. For a batch of one
  element the two are the same. For the kinematic \<open>plain_body south_aim\<close> and the two
  incident rays \<open>(3, -1, 1, 0)\<close> and \<open>(2, -1, 0, 0)\<close> they are not: the norm of the ray
  tensor is 4 and the norm of the sum with the reflect vector \<open>(0, -1, 0, 0)\<close> is 2, so
  the desired normal of the first element is \<open>(3/8, -5/8, 1/8, 0)\<close>, of squared length
  \<open>35/64\<close>, which is no unit vector.
\<close>

theorem batch_normal_not_unit:
  "desired_concentrator_normal
     (compute_locals std_utils (plain_body south_aim) (initial_vars two_rays))
   = [Vec4 (Fin (3 / 8)) (Fin (- (5 / 8))) (Fin (1 / 8)) (Fin 0),
      Vec4 (Fin (1 / 4)) (Fin (- (5 / 8))) (Fin 0) (Fin 0)]
   \<and> sumsq (Vec4 (Fin (3 / 8)) (Fin (- (5 / 8))) (Fin (1 / 8)) (Fin 0)) = Fin (35 / 64)
   \<and> norm_all [Vec4 (Fin (3 / 8)) (Fin (- (5 / 8))) (Fin (1 / 8)) (Fin 0)] \<noteq> Fin 1"
  by (simp add: two_rays_locals) (simp add: norm_all_def sumsq_def)

section \<open>The scenario of the spec\<close>

lemma north_compute_locals:
  "compute_locals std_utils (plain_body north_aim) (initial_vars unit_south_ray) = north_locals"
  by (simp add: compute_locals_def Let_def plain_forward_chain_zero north_locals_def
        north_aim_def unit_south_ray_def initial_vars_def eye4_def nan_vec_def mat_defs vec_defs)

lemma nan_analytical_solution:
  "analytical_solution (plain_body aim) [nan_vec] = [(NaN, NaN)]"
  by (simp add: analytical_solution_def Let_def nan_vec_def)

lemma nan_forward_chain:
  "forward_chain std_utils (plain_body aim) [NaN] [NaN] = [nan_mat]"
  by (simp add: forward_chain_def Let_def)
     (simp add: std_utils_def std_rotate_e_def std_rotate_u_def eye4_def nan_mat_def nan_vec_def mat_defs)

lemma nan_compute_locals:
  "compute_locals std_utils (plain_body north_aim) (nan_vars m k) = nan_locals"
  by (simp add: compute_locals_def Let_def nan_forward_chain nan_vars_def)
     (simp add: nan_locals_def nan_mat_def nan_vec_def north_aim_def mat_defs vec_defs)


lemma north_round_1:
  "align_round std_utils (plain_body north_aim) default_min_eps (initial_vars unit_south_ray)
     = (False, nan_vars eye4 1)"
  by (simp add: align_round_def Let_def converged_def north_compute_locals)
     (simp add: north_locals_def nan_analytical_solution initial_vars_def nan_vars_def)

lemma north_round_2:
  "align_round std_utils (plain_body north_aim) default_min_eps (nan_vars m k)
     = (False, nan_vars nan_mat (Suc k))"
  by (simp add: align_round_def Let_def nan_compute_locals nan_locals_def nan_analytical_solution)
     (simp add: nan_vars_def converged_def any_le_def vec_any_le_def vabs_def vsub_def nan_vec_def)

lemma north_loop:
  "align_loop std_utils (plain_body north_aim) default_min_eps (Suc (Suc 0)) (initial_vars unit_south_ray)
     = nan_vars nan_mat 2"
  by (simp add: north_round_1 north_round_2 numeral_2_eq_2)

lemma nan_apply_offsets: "apply_offsets std_utils zero_offsets [nan_mat] = [nan_mat]"
  by (simp add: apply_offsets_def zero_offsets_def)
     (simp add: eye4_def nan_mat_def nan_vec_def mat_defs)

lemma north_align:
  "align std_utils (plain_body north_aim) unit_south_ray 2 default_min_eps
     = (Inr [nan_mat], unit_south_ray)"
proof -
  have "nat 2 = Suc (Suc 0)" by simp
  then have "align_loop std_utils (plain_body north_aim) default_min_eps (nat 2)
               (initial_vars unit_south_ray) = nan_vars nan_mat 2"
    by (simp only: north_loop)
  then show ?thesis
    by (simp add: align_def Let_def nan_vars_def nan_apply_offsets unit_south_ray_def)
qed

lemma unit_south_round_1:
  "align_round std_utils (plain_body south_aim) default_min_eps (initial_vars unit_south_ray)
     = (False, south_vars 1)"
proof -
  have "compute_locals std_utils (plain_body south_aim) (initial_vars unit_south_ray) = south_locals"
    by (rule south_compute_locals) (simp_all add: initial_vars_def unit_south_ray_def)
  then show ?thesis
    by (simp add: align_round_def Let_def converged_def south_analytical_solution)
       (simp add: initial_vars_def south_vars_def)
qed

lemma unit_south_align:
  "align std_utils (plain_body south_aim) unit_south_ray 2 default_min_eps
     = (Inr [eye4], unit_south_ray)"
proof -
  have "align_loop std_utils (plain_body south_aim) default_min_eps (Suc (Suc 0))
          (initial_vars unit_south_ray) = south_vars 2"
    by (simp add: unit_south_round_1 south_round_2 numeral_2_eq_2)
  moreover have "nat 2 = Suc (Suc 0)" by simp
  ultimately have "align_loop std_utils (plain_body south_aim) default_min_eps (nat 2)
          (initial_vars unit_south_ray) = south_vars 2"
    by (simp only:)
  moreover have "apply_offsets std_utils zero_offsets [eye4] = [eye4]"
    by (simp add: apply_offsets_def zero_offsets_def)
  ultimately show ?thesis
    by (simp add: align_def Let_def south_vars_def unit_south_ray_def)
qed


text \<open>
  C9, as the code has it. In the scenario the first round has both joint angles 0, the
  identity as orientation and the mirror normal \<open>(0, -1, 0)\<close>; the reflect vector
  \<open>(0, 1, 0)\<close> and the incident ray \<open>(0, -1, 0)\<close> cancel, so the desired normal is
  \<open>0/0\<close>, NaN in every element. The solved joint angles are NaN, no convergence test
  passes, and after its two rounds \<open>align\<close> returns an orientation of NaN. With the aim
  point \<open>(0, -100, 0)\<close> instead, \<open>align\<close> returns the identity: the mirror normal is
  \<open>(0, -1, 0)\<close> and both joint angles are 0.
\<close>

theorem scenario_gives_nan:
  "compute_locals std_utils (plain_body north_aim) (initial_vars unit_south_ray) = north_locals
   \<and> align_round std_utils (plain_body north_aim) default_min_eps (initial_vars unit_south_ray)
       = (False, nan_vars eye4 1)
   \<and> align std_utils (plain_body north_aim) unit_south_ray 2 default_min_eps
       = (Inr [nan_mat], unit_south_ray)
   \<and> align std_utils (plain_body south_aim) unit_south_ray 2 default_min_eps
       = (Inr [eye4], unit_south_ray)"
  by (simp only: north_compute_locals north_round_1 north_align unit_south_align simp_thms)

text \<open>
  The claim as stated, a finite mirror normal about \<open>(0, 1, 0)\<close>: the returned
  orientation applied to \<open>(0, -1, 0, 0)\<close> is NaN in every element.
\<close>

theorem scenario_normal_counterexample:
  "fst (align std_utils (plain_body north_aim) unit_south_ray 2 default_min_eps) = Inr [nan_mat]
   \<and> mat_vec nan_mat (Vec4 (Fin 0) (Fin (- 1)) (Fin 0) (Fin 0)) = nan_vec
   \<and> \<not> vec_finite nan_vec"
  by (simp add: north_align) (simp add: nan_mat_def nan_vec_def mat_vec_def dot_def vec_finite_def)

section \<open>The constructor\<close>

lemma dict_set_append:
  "k \<notin> fst ` set pre \<Longrightarrow> dict_set (pre @ (k, v) # xs) k v' = pre @ (k, v') # xs"
  by (induction pre) auto

lemma move_attr_step:
  assumes "a < length h" "fst x \<notin> fst ` set pre"
  shows "move_attr a device x (h[a := pre @ x # xs]) = h[a := (pre @ [moved device x]) @ xs]"
proof (cases x)
  case (Pair k v)
  then show ?thesis
    using assms
    by (cases v) (simp_all add: move_attr_def moved_def setattr_def dict_set_append)
qed

lemma fold_move_attr:
  assumes "a < length h"
  shows "distinct (map fst (pre @ xs))
         \<Longrightarrow> fold (move_attr a device) xs (h[a := pre @ xs]) = h[a := pre @ map (moved device) xs]"
proof (induction xs arbitrary: pre)
  case Nil
  then show ?case by simp
next
  case (Cons x xs)
  have nx: "fst x \<notin> fst ` set pre" using Cons.prems by auto
  have d: "distinct (map fst ((pre @ [moved device x]) @ xs))"
    using Cons.prems by (cases x; cases "snd x") (auto simp add: moved_def)
  have "fold (move_attr a device) (x # xs) (h[a := pre @ x # xs])
        = fold (move_attr a device) xs (h[a := (pre @ [moved device x]) @ xs])"
    using move_attr_step [OF assms nx] by simp
  also have "\<dots> = h[a := (pre @ [moved device x]) @ map (moved device) xs]"
    by (rule Cons.IH [OF d])
  finally show ?case by simp
qed

lemma move_tensors_map:
  assumes "a < length h" "distinct (map fst (h ! a))"
  shows "move_tensors h a device = h[a := map (moved device) (h ! a)]"
proof -
  have "fold (move_attr a device) (h ! a) (h[a := [] @ (h ! a)])
        = h[a := [] @ map (moved device) (h ! a)]"
    by (rule fold_move_attr [OF assms(1)]) (simp add: assms(2))
  then show ?thesis by (simp add: move_tensors_def)
qed


lemma map_fst_moved [simp]: "map fst (map (moved device) xs) = map fst xs"
  by (induction xs) (auto simp add: moved_def split: pyval.split)

lemma fst_moved [simp]: "fst (moved device x) = fst x"
  by (cases x; cases "snd x") (simp_all add: moved_def)

lemma fst_o_moved [simp]: "fst \<circ> moved device = fst"
  by (rule ext) simp

lemma moved_o_moved [simp]: "moved device \<circ> moved device = moved device"
  by (rule ext) (simp add: moved_def tensor_to_def split: pyval.split)

lemma moved_moved [simp]: "moved device (moved device x) = moved device x"
  by (cases x; cases "snd x") (simp_all add: moved_def tensor_to_def)

lemma move_tensors_valid:
  assumes "valid_object h a"
  shows "move_tensors h a device = h[a := map (moved device) (h ! a)]"
  using assms move_tensors_map by (simp add: valid_object_def)

lemma move_tensors_keeps_valid:
  assumes "valid_object h a" "valid_object h b"
  shows "valid_object (move_tensors h a device) b"
  using assms
  by (cases "a = b") (simp_all add: move_tensors_valid valid_object_def)

lemma RigidBody_init_effect:
  assumes "valid_object h d" "valid_object h ob"
    and "d = (case deviations_arg of None \<Rightarrow> default_deviation_parameters M | Some a \<Rightarrow> a)"
    and "ob = (case offsets_arg of
                 None \<Rightarrow> default_initial_orientation_offsets M | Some a \<Rightarrow> a)"
  shows "RigidBody_init M mk h pos aim actuator_config offsets_arg
           deviations_arg device
         = ((h[d := map (moved device) (h ! d)])[ob := map (moved device) (h ! ob)],
            \<lparr> self_position = pos, self_aim_point = aim,
              self_deviation_parameters = d, self_initial_orientation_offsets = ob,
              self_actuators = mk actuator_config device \<rparr>)"
proof -
  have h1: "move_tensors h d device = h[d := map (moved device) (h ! d)]"
    by (rule move_tensors_valid [OF assms(1)])
  have v: "valid_object (move_tensors h d device) ob"
    by (rule move_tensors_keeps_valid [OF assms(1,2)])
  have "move_tensors (move_tensors h d device) ob device
        = (move_tensors h d device)[ob := map (moved device) (move_tensors h d device ! ob)]"
    by (rule move_tensors_valid [OF v])
  also have "\<dots> = (h[d := map (moved device) (h ! d)])[ob := map (moved device) (h ! ob)]"
    using assms(1,2) move_tensors_valid [OF assms(2), of device]
    by (cases "d = ob") (simp_all add: h1 valid_object_def)
  finally show ?thesis
    by (simp add: RigidBody_init_def Let_def assms(3,4) [symmetric])
qed


lemma valid_object_update:
  assumes "valid_object h a" "valid_object h b"
  shows "valid_object (h[a := map (moved device) (h ! a)]) b"
  using assms by (cases "a = b") (simp_all add: valid_object_def)

lemma update_update_nth:
  assumes "valid_object h d" "valid_object h ob"
  shows "(h[d := map (moved device) (h ! d)])[ob := map (moved device) (h ! ob)] ! d
           = map (moved device) (h ! d)"
    and "(h[d := map (moved device) (h ! d)])[ob := map (moved device) (h ! ob)] ! ob
           = map (moved device) (h ! ob)"
    and "b \<noteq> d \<Longrightarrow> b \<noteq> ob
         \<Longrightarrow> (h[d := map (moved device) (h ! d)])[ob := map (moved device) (h ! ob)] ! b = h ! b"
  using assms by (cases "d = ob"; simp add: valid_object_def)+

text \<open>
  C10. \<open>__init__\<close> changes the objects it is given: the kinematic refers to the caller's
  \<open>deviation_parameters\<close> and \<open>initial_orientation_offsets\<close> objects themselves, and in
  each of them every attribute that is a tensor has been replaced by the tensor moved to
  the device; the other attributes and the other objects are as they were. Two kinematics
  constructed without these two arguments refer to the same two default objects, and the
  second construction moves the tensors that the first one has left there.
\<close>

theorem init_mutates_and_shares_parameter_objects:
  assumes "valid_object h d" "valid_object h ob"
    and "valid_object h (default_deviation_parameters M)"
    and "valid_object h (default_initial_orientation_offsets M)"
    and "r = RigidBody_init M mk h pos aim cfg (Some ob) (Some d) device"
    and "r1 = RigidBody_init M mk h pos aim cfg None None device"
    and "r2 = RigidBody_init M mk' (fst r1) pos' aim' cfg' None None device'"
  shows "self_deviation_parameters (snd r) = d \<and> self_initial_orientation_offsets (snd r) = ob
         \<and> fst r ! d = map (moved device) (h ! d)
         \<and> fst r ! ob = map (moved device) (h ! ob)
         \<and> (\<forall>b. b \<noteq> d \<and> b \<noteq> ob \<longrightarrow> fst r ! b = h ! b)
         \<and> self_deviation_parameters (snd r1) = default_deviation_parameters M
         \<and> self_deviation_parameters (snd r2) = default_deviation_parameters M
         \<and> self_initial_orientation_offsets (snd r1) = default_initial_orientation_offsets M
         \<and> self_initial_orientation_offsets (snd r2) = default_initial_orientation_offsets M
         \<and> fst r2 ! default_deviation_parameters M
             = map (moved device') (map (moved device) (h ! default_deviation_parameters M))
         \<and> fst r2 ! default_initial_orientation_offsets M
             = map (moved device') (map (moved device) (h ! default_initial_orientation_offsets M))"
proof -
  let ?dd = "default_deviation_parameters M" and ?dob = "default_initial_orientation_offsets M"
  have e: "r = ((h[d := map (moved device) (h ! d)])[ob := map (moved device) (h ! ob)],
            \<lparr> self_position = pos, self_aim_point = aim,
              self_deviation_parameters = d, self_initial_orientation_offsets = ob,
              self_actuators = mk cfg device \<rparr>)"
    unfolding assms(5) by (rule RigidBody_init_effect [OF assms(1,2)]) simp_all
  have e1: "r1 = ((h[?dd := map (moved device) (h ! ?dd)])[?dob := map (moved device) (h ! ?dob)],
            \<lparr> self_position = pos, self_aim_point = aim,
              self_deviation_parameters = ?dd, self_initial_orientation_offsets = ?dob,
              self_actuators = mk cfg device \<rparr>)"
    unfolding assms(6) by (rule RigidBody_init_effect [OF assms(3,4)]) simp_all
  let ?h1 = "fst r1"
  have h1d: "?h1 ! ?dd = map (moved device) (h ! ?dd)"
    and h1o: "?h1 ! ?dob = map (moved device) (h ! ?dob)"
    using update_update_nth(1,2) [OF assms(3,4), where device = device] by (simp_all add: e1)
  have v1: "valid_object ?h1 ?dd" "valid_object ?h1 ?dob"
    using assms(3,4) h1d h1o by (simp_all add: e1 valid_object_def)
  have e2: "r2 = ((?h1[?dd := map (moved device') (?h1 ! ?dd)])[?dob := map (moved device') (?h1 ! ?dob)],
            \<lparr> self_position = pos', self_aim_point = aim',
              self_deviation_parameters = ?dd, self_initial_orientation_offsets = ?dob,
              self_actuators = mk' cfg' device' \<rparr>)"
    unfolding assms(7) by (rule RigidBody_init_effect [OF v1]) simp_all
  have h2d: "fst r2 ! ?dd = map (moved device') (?h1 ! ?dd)"
    and h2o: "fst r2 ! ?dob = map (moved device') (?h1 ! ?dob)"
    using update_update_nth(1,2) [OF v1, where device = device'] by (simp_all add: e2)
  have a: "fst r ! d = map (moved device) (h ! d)" "fst r ! ob = map (moved device) (h ! ob)"
    "\<forall>b. b \<noteq> d \<and> b \<noteq> ob \<longrightarrow> fst r ! b = h ! b"
    using update_update_nth [OF assms(1,2), where device = device] by (simp_all add: e)
  show ?thesis
    using a h2d h2o h1d h1o by (simp add: e e1 e2)
qed


lemma example_heap_simps:
  "example_heap = [caller_deviations_object, default_offsets_object, default_deviations_object]"
  "default_initial_orientation_offsets example_defaults = 1"
  "default_deviation_parameters example_defaults = 2"
  by (simp_all add: example_heap_def example_defaults_def define_init_def)

lemma example_valid:
  "valid_object example_heap 0" "valid_object example_heap 1" "valid_object example_heap 2"
  by (simp_all add: valid_object_def example_heap_simps caller_deviations_object_def
      default_offsets_object_def default_deviations_object_def)

theorem init_mutates_and_shares_parameter_objects_witness:
  "valid_object example_heap 0 \<and> valid_object example_heap 1 \<and> valid_object example_heap 2
   \<and> fst (RigidBody_init example_defaults (\<lambda>c d. ()) example_heap south_aim south_aim ()
          (Some 1) (Some 0) ''cuda'') ! 0
       = [(''first_joint_translation_e'', TensorV (Tensor [Fin 1] ''cuda'')),
          (''first_joint_tilt_e'', NoneV),
          (''concentrator_tilt_u'', TensorV (Tensor [Fin 2] ''cuda''))]
   \<and> self_deviation_parameters
        (snd (RigidBody_init example_defaults (\<lambda>c d. ()) example_heap south_aim south_aim ()
               None None ''cuda'')) = 2
   \<and> self_deviation_parameters
        (snd (RigidBody_init example_defaults (\<lambda>c d. ())
               (fst (RigidBody_init example_defaults (\<lambda>c d. ()) example_heap south_aim south_aim ()
                      None None ''cuda''))
               south_aim south_aim () None None ''cpu'')) = 2"
proof -
  have v: "valid_object example_heap (default_deviation_parameters example_defaults)"
    "valid_object example_heap (default_initial_orientation_offsets example_defaults)"
    using example_valid by (simp_all only: example_heap_simps(2,3))
  have m: "map (moved ''cuda'') (example_heap ! 0)
        = [(''first_joint_translation_e'', TensorV (Tensor [Fin 1] ''cuda'')),
          (''first_joint_tilt_e'', NoneV),
          (''concentrator_tilt_u'', TensorV (Tensor [Fin 2] ''cuda''))]"
    by (simp add: example_heap_simps caller_deviations_object_def moved_def tensor_to_def)
  show ?thesis
    using init_mutates_and_shares_parameter_objects
      [OF example_valid(1) example_valid(2) v refl refl refl,
        where mk = "\<lambda>c d. ()" and mk' = "\<lambda>c d. ()" and pos = south_aim and aim = south_aim
          and pos' = south_aim and aim' = south_aim and cfg = "()" and cfg' = "()"
          and device = "''cuda''" and device' = "''cpu''"]
    using example_valid by (simp add: m example_heap_simps(2,3))
qed

end
